theory Spec2Isabelle
  imports Complex_Main "HOL-Library.Word"
begin

unbundle bit_operations_syntax

section \<open>The SNTP client of Mongoose OS (fw/src/mgos\_sntp.c)\<close>

text \<open>
  The module keeps one static \<^verbatim>\<open>struct mgos_sntp_state s_state\<close>, reads the \<^verbatim>\<open>sntp\<close>
  section of the system configuration on every call, and talks to three collaborators
  that are not part of the file: the Mongoose connection manager (\<^verbatim>\<open>struct mg_mgr\<close>,
  \<^verbatim>\<open>mg_sntp_connect\<close>), the timer service (\<^verbatim>\<open>mgos_set_timer\<close>, \<^verbatim>\<open>mgos_clear_timer\<close>)
  and the C library (\<^verbatim>\<open>settimeofday\<close>, the random source behind \<^verbatim>\<open>mgos_rand_range\<close>).

  The embedding passes the state explicitly. Every function of the file takes the
  \<^emph>\<open>world\<close> (the static state, the manager's connections, the armed timers and a log of
  the observer calls) and returns the world it leaves. What a collaborator answers
  during one call (the clock reading, the result of \<^verbatim>\<open>settimeofday\<close>, the random draw,
  whether a connection could be created) is an input, the record \<open>env\<close>.
\<close>

subsection \<open>C integers\<close>

text \<open>
  \<^verbatim>\<open>int\<close> is 32 bits wide on the targets of the firmware. The arithmetic the file does on
  \<^verbatim>\<open>int\<close> is multiplication; the model computes on \<open>int\<close> and writes the two's-complement
  wrap-around out. (Signed overflow is undefined in C; the theorems below that depend on
  a product assume that it is representable, where C and the model agree.)
\<close>

definition INT_MIN :: int where
  "INT_MIN = - (2 ^ 31)"

definition INT_MAX :: int where
  "INT_MAX = 2 ^ 31 - 1"

definition int_ok :: "int \<Rightarrow> bool" where
  "int_ok x = (INT_MIN \<le> x \<and> x \<le> INT_MAX)"

definition wrap_int :: "int \<Rightarrow> int" where
  "wrap_int x = (x + 2 ^ 31) mod 2 ^ 32 - 2 ^ 31"

definition c_mul :: "int \<Rightarrow> int \<Rightarrow> int" where
  "c_mul a b = wrap_int (a * b)"

text \<open>
  The times of the file are \<^verbatim>\<open>double\<close>s. The model computes on rationals, exactly: the
  rounding of floating-point arithmetic is outside it. \<open>double_to_int\<close> is the cast
  \<^verbatim>\<open>(int) x\<close> to the 32-bit \<^verbatim>\<open>int\<close>: it truncates towards zero. When the truncated
  value is not representable the cast is undefined in C; the model returns
  \<^verbatim>\<open>INT_MIN\<close> there, the value the conversion instructions of the usual processors
  deliver, and every statement about a delay assumes the draw in range.
\<close>

definition double_to_int :: "rat \<Rightarrow> int" where
  "double_to_int x =
     (let t = (if 0 \<le> x then \<lfloor>x\<rfloor> else \<lceil>x\<rceil>)
      in if int_ok t then t else INT_MIN)"

subsection \<open>Configuration\<close>

text \<open>
  \<^verbatim>\<open>struct sys_config_sntp\<close> is generated from the configuration schema and is not in
  the file; its fields are the ones the file reads. \<^verbatim>\<open>server\<close> is a \<^verbatim>\<open>char *\<close>:
  \<open>None\<close> is \<^verbatim>\<open>NULL\<close>, \<open>Some s\<close> a pointer to the string \<open>s\<close>, which may be empty.
\<close>

record sys_config_sntp =
  enable :: bool
  server :: "string option"
  update_interval :: int
  retry_min :: int
  retry_max :: int

subsection \<open>Connections\<close>

text \<open>
  Of \<^verbatim>\<open>struct mg_connection\<close> the file touches \<^verbatim>\<open>flags\<close> and \<^verbatim>\<open>ev_timer_time\<close>; the
  record keeps the address of the connection (its identity), the handler it was created
  with, and is extensible, so that a statement about a connection scheme covers every
  other field of the C struct. \<^verbatim>\<open>MG_F_CLOSE_IMMEDIATELY\<close> is bit 11 in mongoose.h.
\<close>

datatype mg_event_handler = H_mgos_sntp_ev | H_other

record mg_connection =
  conn_ptr :: nat
  handler :: mg_event_handler
  flags :: "32 word"
  ev_timer_time :: rat

definition MG_F_CLOSE_IMMEDIATELY :: "32 word" where
  "MG_F_CLOSE_IMMEDIATELY = push_bit 11 1"

subsection \<open>The static state and the world\<close>

text \<open>
  An observer is a function pointer with its argument. The only observer this file
  defines is \<^verbatim>\<open>mgos_time_change_cb\<close>; the others are identified by a number.
  \<^verbatim>\<open>time_change_cbs\<close> is the singly linked list, head first.
  \<^verbatim>\<open>MGOS_INVALID_TIMER_ID\<close> is 0.
\<close>

datatype time_change_fn = CB_mgos_time_change_cb | CB_user nat

record time_change_cb =
  cb :: time_change_fn
  cb_arg :: nat

record mgos_sntp_state =
  nc :: "nat option"
  synced :: bool
  retry_timeout_ms :: int
  retry_timer_id :: nat
  time_change_cbs :: "time_change_cb list"

definition MGOS_INVALID_TIMER_ID :: nat where
  "MGOS_INVALID_TIMER_ID = 0"

datatype mgos_init_result = MGOS_INIT_OK | MGOS_INIT_SNTP_INIT_FAILED

text \<open>
  The world: \<open>mgr\<close> is the list of connections \<^verbatim>\<open>mg_next\<close> walks; \<open>timers\<close> the armed
  one-shot timers with the delay each was armed with; \<open>cb_calls\<close> the observer calls
  made so far, oldest first, each with the argument and the delta it received;
  \<open>net_handlers\<close> counts the registrations of \<^verbatim>\<open>mgos_sntp_net_ev\<close>.
\<close>

record world =
  s_state :: mgos_sntp_state
  mgr :: "mg_connection list"
  timers :: "(nat \<times> int) list"
  cb_calls :: "(time_change_fn \<times> nat \<times> rat) list"
  net_handlers :: nat

record env =
  mg_time :: rat
  settimeofday_result :: int
  rand_unit :: rat
  connect_ok :: bool

definition mgos_get_mgr :: nat where
  "mgos_get_mgr = 0"

subsection \<open>The collaborators\<close>

text \<open>
  Modelled from the spec: \<^verbatim>\<open>mgos_rand_range\<close> (mgos\_utils.c is not among the sources)
  draws a value between its two arguments ("drawing uniformly from [0.9x, 1.1x] of the
  computed value"). The draw is the point of the interval at the fraction \<open>rand_unit\<close>,
  a number in [0, 1] that the environment supplies.
\<close>

definition mgos_rand_range :: "rat \<Rightarrow> rat \<Rightarrow> rat \<Rightarrow> rat" where
  "mgos_rand_range u from to = from + (to - from) * u"

text \<open>
  Modelled from the spec: the deferred timer (mgos\_timers.c is not among the sources),
  "arm(delayMs, callback) -> timerHandle; disarm(timerHandle); one-shot". Arming
  returns a handle that is valid and different from every armed one.
\<close>

definition fresh_id :: "nat list \<Rightarrow> nat" where
  "fresh_id xs = Suc (fold max xs 0)"

definition mgos_set_timer :: "int \<Rightarrow> world \<Rightarrow> nat \<times> world" where
  "mgos_set_timer ms w =
     (let tid = fresh_id (map fst (timers w))
      in (tid, w\<lparr>timers := timers w @ [(tid, ms)]\<rparr>))"

definition mgos_clear_timer :: "nat \<Rightarrow> world \<Rightarrow> world" where
  "mgos_clear_timer tid w = w\<lparr>timers := filter (\<lambda>t. fst t \<noteq> tid) (timers w)\<rparr>"

text \<open>
  Modelled from the spec: the sync client (mongoose's SNTP client is not among the
  sources), "connect(serverAddress, onEvent) -> sessionHandle | null". When the
  environment lets the connection be created, it is a new connection of the manager
  with the handler \<^verbatim>\<open>mgos_sntp_ev\<close> and an address no live connection has.
\<close>

definition mg_sntp_connect :: "env \<Rightarrow> string option \<Rightarrow> world \<Rightarrow> nat option \<times> world" where
  "mg_sntp_connect e srv w =
     (if connect_ok e then
        (let p = fresh_id (map conn_ptr (mgr w));
             c = \<lparr>conn_ptr = p, handler = H_mgos_sntp_ev, flags = 0, ev_timer_time = 0\<rparr>
         in (Some p, w\<lparr>mgr := c # mgr w\<rparr>))
      else (None, w))"

text \<open>\<^verbatim>\<open>nc->flags |= MG_F_CLOSE_IMMEDIATELY\<close>, on the connection at address \<open>p\<close>.\<close>

definition set_close_flag :: "nat \<Rightarrow> world \<Rightarrow> world" where
  "set_close_flag p w =
     w\<lparr>mgr := map (\<lambda>c. if conn_ptr c = p
                         then c\<lparr>flags := flags c OR MG_F_CLOSE_IMMEDIATELY\<rparr> else c) (mgr w)\<rparr>"

subsection \<open>The functions of the file\<close>

text \<open>\<^verbatim>\<open>mgos_time_change_cb\<close>: the loop over the manager's connections.\<close>

definition mgos_time_change_cb :: "'a mg_connection_scheme list \<Rightarrow> rat \<Rightarrow> 'a mg_connection_scheme list" where
  "mgos_time_change_cb m delta =
     map (\<lambda>c. if ev_timer_time c > 0 then c\<lparr>ev_timer_time := ev_timer_time c + delta\<rparr> else c) m"

text \<open>
  \<^verbatim>\<open>tccb->cb(tccb->cb_arg, delta)\<close>. The built-in observer is registered with the
  manager as its argument and shifts the manager's connections; what a foreign observer
  does to its own subsystem is not part of this module, so its call is recorded only.
\<close>

definition call_cb :: "time_change_cb \<Rightarrow> rat \<Rightarrow> world \<Rightarrow> world" where
  "call_cb t delta w =
     (let w1 = w\<lparr>cb_calls := cb_calls w @ [(cb t, cb_arg t, delta)]\<rparr>
      in (case cb t of
            CB_mgos_time_change_cb \<Rightarrow> w1\<lparr>mgr := mgos_time_change_cb (mgr w1) delta\<rparr>
          | CB_user n \<Rightarrow> w1))"

text \<open>\<^verbatim>\<open>SLIST_FOREACH(tccb, &s_state.time_change_cbs, entries)\<close>: from the head on.\<close>

fun notify_all :: "time_change_cb list \<Rightarrow> rat \<Rightarrow> world \<Rightarrow> world" where
  "notify_all [] delta w = w"
| "notify_all (t # ts) delta w = notify_all ts delta (call_cb t delta w)"

text \<open>
  \<^verbatim>\<open>mgos_sntp_add_time_change_cb\<close>: \<^verbatim>\<open>SLIST_INSERT_HEAD\<close> of a new node (the allocation
  is taken to succeed).
\<close>

definition mgos_sntp_add_time_change_cb :: "time_change_fn \<Rightarrow> nat \<Rightarrow> world \<Rightarrow> world" where
  "mgos_sntp_add_time_change_cb f arg w =
     w\<lparr>s_state := (s_state w)\<lparr>time_change_cbs :=
          \<lparr>cb = f, cb_arg = arg\<rparr> # time_change_cbs (s_state w)\<rparr>\<rparr>"

text \<open>\<^verbatim>\<open>mgos_sntp_retry\<close>.\<close>

definition mgos_sntp_retry :: "sys_config_sntp \<Rightarrow> env \<Rightarrow> world \<Rightarrow> world" where
  "mgos_sntp_retry scfg e w =
     (if \<not> enable scfg then w
      else if retry_timer_id (s_state w) \<noteq> MGOS_INVALID_TIMER_ID then w
      else
        (let (rt_ms, w1) =
               (if synced (s_state w) then (c_mul (update_interval scfg) 1000, w)
                else
                  (let rt0 = c_mul (retry_timeout_ms (s_state w)) 2;
                       rt1 = (if rt0 < c_mul (retry_min scfg) 1000
                              then c_mul (retry_min scfg) 1000 else rt0);
                       rt2 = (if rt1 > c_mul (retry_max scfg) 1000
                              then c_mul (retry_max scfg) 1000 else rt1)
                   in (rt2, w\<lparr>s_state := (s_state w)\<lparr>retry_timeout_ms := rt2\<rparr>\<rparr>)));
             delay = double_to_int
                       (mgos_rand_range (rand_unit e) (of_int rt_ms * (9 / 10))
                                                      (of_int rt_ms * (11 / 10)));
             (tid, w2) = mgos_set_timer delay w1
         in w2\<lparr>s_state := (s_state w2)\<lparr>retry_timer_id := tid\<rparr>\<rparr>))"

text \<open>\<^verbatim>\<open>mgos_sntp_query\<close>: the result and the world.\<close>

definition mgos_sntp_query :: "env \<Rightarrow> string option \<Rightarrow> world \<Rightarrow> bool \<times> world" where
  "mgos_sntp_query e srv w =
     (case nc (s_state w) of
        Some p \<Rightarrow> (False, set_close_flag p w)
      | None \<Rightarrow>
          (let (r, w1) = mg_sntp_connect e srv w;
               w2 = w1\<lparr>s_state := (s_state w1)\<lparr>nc := r\<rparr>\<rparr>
           in (r \<noteq> None, w2)))"

text \<open>\<^verbatim>\<open>mgos_sntp_retry_timer_cb\<close>.\<close>

definition mgos_sntp_retry_timer_cb :: "sys_config_sntp \<Rightarrow> env \<Rightarrow> world \<Rightarrow> world" where
  "mgos_sntp_retry_timer_cb scfg e w =
     (let w1 = w\<lparr>s_state := (s_state w)\<lparr>retry_timer_id := MGOS_INVALID_TIMER_ID\<rparr>\<rparr>;
          (r, w2) = mgos_sntp_query e (server scfg) w1
      in mgos_sntp_retry scfg e w2)"

text \<open>
  \<^verbatim>\<open>mgos_sntp_ev\<close>. The events of a connection: the five the \<^verbatim>\<open>switch\<close> names (the reply
  carries \<^verbatim>\<open>m->time\<close>) and any other, which falls through the \<^verbatim>\<open>switch\<close>. Sending the
  request on \<^verbatim>\<open>MG_EV_CONNECT\<close> and the logging leave the world as it is. In the reply case
  the \<^verbatim>\<open>struct timeval\<close> built from \<^verbatim>\<open>m->time\<close> only feeds \<^verbatim>\<open>settimeofday\<close>, whose result
  the environment supplies.
\<close>

datatype mg_event =
    MG_EV_CONNECT
  | MG_SNTP_REPLY rat
  | MG_SNTP_MALFORMED_REPLY
  | MG_SNTP_FAILED
  | MG_EV_CLOSE
  | MG_EV_OTHER

fun mgos_sntp_ev :: "sys_config_sntp \<Rightarrow> env \<Rightarrow> nat \<Rightarrow> mg_event \<Rightarrow> world \<Rightarrow> world" where
  "mgos_sntp_ev scfg e p MG_EV_CONNECT w = w"
| "mgos_sntp_ev scfg e p (MG_SNTP_REPLY m_time) w =
     (let now = mg_time e;
          delta = m_time - now;
          w1 = (if settimeofday_result e = 0
                then notify_all (time_change_cbs (s_state w)) delta w
                else w);
          w2 = w1\<lparr>s_state := (s_state w1)\<lparr>retry_timeout_ms := 0\<rparr>\<rparr>;
          w3 = w2\<lparr>s_state := (s_state w2)\<lparr>synced := True\<rparr>\<rparr>;
          w4 = set_close_flag p w3
      in if retry_timer_id (s_state w4) \<noteq> MGOS_INVALID_TIMER_ID
         then (let w5 = mgos_clear_timer (retry_timer_id (s_state w4)) w4
               in w5\<lparr>s_state := (s_state w5)\<lparr>retry_timer_id := MGOS_INVALID_TIMER_ID\<rparr>\<rparr>)
         else w4)"
| "mgos_sntp_ev scfg e p MG_SNTP_MALFORMED_REPLY w = set_close_flag p w"
| "mgos_sntp_ev scfg e p MG_SNTP_FAILED w = set_close_flag p w"
| "mgos_sntp_ev scfg e p MG_EV_CLOSE w =
     (if nc (s_state w) = Some p
      then mgos_sntp_retry scfg e (w\<lparr>s_state := (s_state w)\<lparr>nc := None\<rparr>\<rparr>)
      else w)"
| "mgos_sntp_ev scfg e p MG_EV_OTHER w = w"

text \<open>\<^verbatim>\<open>mgos_sntp_net_ev\<close>.\<close>

datatype mgos_net_event = MGOS_NET_EV_IP_ACQUIRED | MGOS_NET_EV_OTHER

definition mgos_sntp_net_ev :: "sys_config_sntp \<Rightarrow> env \<Rightarrow> mgos_net_event \<Rightarrow> world \<Rightarrow> world" where
  "mgos_sntp_net_ev scfg e ev w =
     (if ev \<noteq> MGOS_NET_EV_IP_ACQUIRED then w else mgos_sntp_retry scfg e w)"

text \<open>\<^verbatim>\<open>mgos_sntp_init\<close>.\<close>

definition mgos_sntp_init :: "sys_config_sntp \<Rightarrow> world \<Rightarrow> mgos_init_result \<times> world" where
  "mgos_sntp_init scfg w =
     (if \<not> enable scfg then (MGOS_INIT_OK, w)
      else if server scfg = None then (MGOS_INIT_SNTP_INIT_FAILED, w)
      else
        (let w1 = mgos_sntp_add_time_change_cb CB_mgos_time_change_cb mgos_get_mgr w;
             w2 = w1\<lparr>net_handlers := Suc (net_handlers w1)\<rparr>
         in (MGOS_INIT_OK, w2)))"

subsection \<open>The event loop\<close>

text \<open>
  Modelled from the spec: the loop that calls the handlers (Mongoose's poll loop and the
  timer service are not among the sources), "all state transitions (session start,
  session close, timer fire, link-up event) execute on one logical event loop", a
  session's close notification comes once, after its outcome, and a timer is one-shot.
  An event is delivered with the answers the collaborators give during its handling. The
  loop delivers
  \<^item> a network event to \<^verbatim>\<open>mgos_sntp_net_ev\<close>;
  \<^item> the expiry of an armed timer: the one-shot timer is gone, then its callback
    \<^verbatim>\<open>mgos_sntp_retry_timer_cb\<close> runs;
  \<^item> an event of a live connection that was created with the handler \<^verbatim>\<open>mgos_sntp_ev\<close>;
    after \<^verbatim>\<open>MG_EV_CLOSE\<close> the manager destroys the connection;
  \<^item> a call of \<^verbatim>\<open>mgos_sntp_add_time_change_cb\<close> by another subsystem.
  \<open>step\<close> is \<open>None\<close> when the loop cannot deliver the event in that world (the timer is
  not armed, the connection is not a live session).
\<close>

datatype sys_event =
    Ev_net mgos_net_event
  | Ev_timer nat
  | Ev_conn nat mg_event
  | Ev_add_cb nat nat

definition session_ptrs :: "world \<Rightarrow> nat list" where
  "session_ptrs w = map conn_ptr (filter (\<lambda>c. handler c = H_mgos_sntp_ev) (mgr w))"

fun step :: "sys_config_sntp \<Rightarrow> env \<times> sys_event \<Rightarrow> world \<Rightarrow> world option" where
  "step scfg (e, Ev_net ev) w = Some (mgos_sntp_net_ev scfg e ev w)"
| "step scfg (e, Ev_timer tid) w =
     (if tid \<in> set (map fst (timers w))
      then Some (mgos_sntp_retry_timer_cb scfg e
                   (w\<lparr>timers := filter (\<lambda>t. fst t \<noteq> tid) (timers w)\<rparr>))
      else None)"
| "step scfg (e, Ev_conn p ev) w =
     (if p \<in> set (session_ptrs w)
      then (let w1 = mgos_sntp_ev scfg e p ev w
            in Some (if ev = MG_EV_CLOSE
                     then w1\<lparr>mgr := filter (\<lambda>c. conn_ptr c \<noteq> p) (mgr w1)\<rparr> else w1))
      else None)"
| "step scfg (e, Ev_add_cb n a) w = Some (mgos_sntp_add_time_change_cb (CB_user n) a w)"

fun run :: "sys_config_sntp \<Rightarrow> (env \<times> sys_event) list \<Rightarrow> world \<Rightarrow> world option" where
  "run scfg [] w = Some w"
| "run scfg (x # xs) w = (case step scfg x w of None \<Rightarrow> None | Some w1 \<Rightarrow> run scfg xs w1)"

text \<open>
  The world at start-up: the static state is zero-initialised, no timer is armed, and
  the manager holds the connections \<open>m\<close> of the other subsystems.
\<close>

definition boot :: "mg_connection list \<Rightarrow> world" where
  "boot m =
     \<lparr>s_state = \<lparr>nc = None, synced = False, retry_timeout_ms = 0,
                 retry_timer_id = MGOS_INVALID_TIMER_ID, time_change_cbs = []\<rparr>,
      mgr = m, timers = [], cb_calls = [], net_handlers = 0\<rparr>"

text \<open>An event that reports a reply of the server.\<close>

fun is_reply :: "env \<times> sys_event \<Rightarrow> bool" where
  "is_reply (e, Ev_conn p (MG_SNTP_REPLY t)) = True"
| "is_reply x = False"

text \<open>Concrete inputs for the examples.\<close>

definition cfg0 :: sys_config_sntp where
  "cfg0 = \<lparr>enable = True, server = Some ''pool.ntp.org'', update_interval = 7200,
           retry_min = 10, retry_max = 300\<rparr>"

definition env0 :: env where
  "env0 = \<lparr>mg_time = 1000, settimeofday_result = 0, rand_unit = 1 / 2, connect_ok = True\<rparr>"

subsection \<open>Notions used in the statements\<close>

text \<open>
  The delay \<^verbatim>\<open>mgos_sntp_retry\<close> arms the timer with, for the value \<open>rt\<close> it has computed
  (\<^verbatim>\<open>(int) mgos_rand_range(rt_ms * 0.9, rt_ms * 1.1)\<close>), and the value its backoff
  branch computes from the stored \<^verbatim>\<open>retry_timeout_ms\<close>: the two pieces of the function's
  body, named.
\<close>

definition jitter :: "rat \<Rightarrow> int \<Rightarrow> int" where
  "jitter u rt = double_to_int (mgos_rand_range u (of_int rt * (9 / 10)) (of_int rt * (11 / 10)))"

definition next_backoff :: "sys_config_sntp \<Rightarrow> int \<Rightarrow> int" where
  "next_backoff scfg b =
     (let rt0 = c_mul b 2;
          rt1 = (if rt0 < c_mul (retry_min scfg) 1000 then c_mul (retry_min scfg) 1000 else rt0)
      in if rt1 > c_mul (retry_max scfg) 1000 then c_mul (retry_max scfg) 1000 else rt1)"

text \<open>Registering the observers of a list, the first of the list first.\<close>

definition register_all :: "(time_change_fn \<times> nat) list \<Rightarrow> world \<Rightarrow> world" where
  "register_all regs w = fold (\<lambda>r. mgos_sntp_add_time_change_cb (fst r) (snd r)) regs w"

text \<open>Three connections and a world in the middle of an attempt, for the examples.\<close>

definition conn_a :: mg_connection where
  "conn_a = \<lparr>conn_ptr = 1, handler = H_other, flags = 0, ev_timer_time = 50\<rparr>"

definition conn_b :: mg_connection where
  "conn_b = \<lparr>conn_ptr = 2, handler = H_other, flags = 5, ev_timer_time = 0\<rparr>"

definition conn_c :: mg_connection where
  "conn_c = \<lparr>conn_ptr = 3, handler = H_mgos_sntp_ev, flags = 0, ev_timer_time = - 4\<rparr>"

definition world_attempt :: world where
  "world_attempt =
     \<lparr>s_state = \<lparr>nc = Some 1, synced = False, retry_timeout_ms = 20000,
                 retry_timer_id = 1, time_change_cbs = [\<lparr>cb = CB_user 4, cb_arg = 9\<rparr>]\<rparr>,
      mgr = [\<lparr>conn_ptr = 1, handler = H_mgos_sntp_ev, flags = 0, ev_timer_time = 0\<rparr>],
      timers = [(1, 20000)], cb_calls = [], net_handlers = 1\<rparr>"

text \<open>
  The live sessions are exactly the one \<^verbatim>\<open>s_state.nc\<close> tracks: the invariant behind the
  single-session property.
\<close>

definition one_session :: "world \<Rightarrow> bool" where
  "one_session w = (session_ptrs w = (case nc (s_state w) of None \<Rightarrow> [] | Some p \<Rightarrow> [p]))"

text \<open>
  A failed attempt, as the event loop sees it: the retry timer (handle 1) expires, the
  session the callback opens (at address 1) reports a failure and is closed. A run of
  consecutive failures is the link coming up followed by failed attempts.
\<close>

definition failed_attempt :: "env \<Rightarrow> (env \<times> sys_event) list" where
  "failed_attempt e =
     [(e, Ev_timer 1), (e, Ev_conn 1 MG_SNTP_FAILED), (e, Ev_conn 1 MG_EV_CLOSE)]"

definition failures :: "env \<Rightarrow> env list \<Rightarrow> (env \<times> sys_event) list" where
  "failures e0 es = (e0, Ev_net MGOS_NET_EV_IP_ACQUIRED) # concat (map failed_attempt es)"

text \<open>
  The world between two attempts of the example run: nothing tracked, not synced, the
  backoff \<open>b\<close> stored and the retry timer (handle 1) armed with the delay \<open>d\<close>.
\<close>

definition waiting :: "int \<Rightarrow> int \<Rightarrow> world" where
  "waiting b d =
     \<lparr>s_state = \<lparr>nc = None, synced = False, retry_timeout_ms = b,
                 retry_timer_id = 1, time_change_cbs = []\<rparr>,
      mgr = [], timers = [(1, d)], cb_calls = [], net_handlers = 0\<rparr>"

text \<open>
  A first successful synchronisation of the example run: the link comes up, the timer
  expires, the session opened by the callback receives a reply and is closed.
\<close>

definition synced_once :: "(env \<times> sys_event) list" where
  "synced_once =
     [(env0, Ev_net MGOS_NET_EV_IP_ACQUIRED), (env0, Ev_timer 1),
      (env0, Ev_conn 1 (MG_SNTP_REPLY 1500)), (env0, Ev_conn 1 MG_EV_CLOSE)]"

section \<open>Basic facts\<close>

subsection \<open>Integers and the jitter\<close>

lemma wrap_int_id: "int_ok x \<Longrightarrow> wrap_int x = x"
  by (simp add: int_ok_def wrap_int_def INT_MIN_def INT_MAX_def)

lemma c_mul_ok: "int_ok (a * b) \<Longrightarrow> c_mul a b = a * b"
  by (simp add: c_mul_def wrap_int_id)

text \<open>
  When \<open>rt\<close> is a multiple of 10, nine and eleven tenths of it are integers, and the
  truncation of the draw stays between them, provided eleven tenths of \<open>rt\<close> are
  representable.
\<close>

lemma double_to_int_ok:
  "int_ok (if 0 \<le> x then \<lfloor>x\<rfloor> else \<lceil>x\<rceil>) \<Longrightarrow>
   double_to_int x = (if 0 \<le> x then \<lfloor>x\<rfloor> else \<lceil>x\<rceil>)"
  by (simp only: double_to_int_def Let_def if_True)

lemma jitter_nonneg:
  assumes u: "0 \<le> u" "u \<le> 1" and rt: "0 \<le> rt" and d: "10 dvd rt"
    and r: "11 * rt \<le> 10 * INT_MAX"
  shows "9 * rt \<le> 10 * jitter u rt \<and> 10 * jitter u rt \<le> 11 * rt"
proof -
  obtain k where k: "rt = 10 * k" using d by (auto simp: dvd_def)
  have k0: "0 \<le> k" using rt k by simp
  define x :: rat where "x = mgos_rand_range u (of_int rt * (9 / 10)) (of_int rt * (11 / 10))"
  define t :: int where "t = (if 0 \<le> x then \<lfloor>x\<rfloor> else \<lceil>x\<rceil>)"
  have xe: "x = of_int (9 * k) + of_int (2 * k) * u"
    by (simp add: x_def mgos_rand_range_def k algebra_simps)
  have "0 \<le> (of_int (2 * k) :: rat) * u" using k0 u by simp
  then have lo: "of_int (9 * k) \<le> x" using xe by simp
  have "(of_int (2 * k) :: rat) * u \<le> of_int (2 * k) * 1"
    using k0 u by (intro mult_left_mono) simp_all
  then have hi: "x \<le> of_int (11 * k)" using xe by simp
  have "(0::rat) \<le> of_int (9 * k)" using k0 by simp
  then have x0: "0 \<le> x" using lo by (rule order_trans)
  have tf: "t = \<lfloor>x\<rfloor>" using x0 by (simp add: t_def)
  have f1: "9 * k \<le> t" unfolding tf using lo by (simp only: le_floor_iff)
  have f2: "t \<le> 11 * k" unfolding tf using hi by (metis floor_mono floor_of_int)
  have "11 * k \<le> INT_MAX" using r k by simp
  moreover have "INT_MIN \<le> 0" by (simp add: INT_MIN_def)
  ultimately have "int_ok t" using f1 f2 k0 unfolding int_ok_def by linarith
  then have "double_to_int x = t" unfolding t_def by (rule double_to_int_ok)
  then have j: "jitter u rt = t" by (simp add: jitter_def x_def)
  show ?thesis using f1 f2 j k by simp
qed

lemma jitter_nonpos:
  assumes u: "0 \<le> u" "u \<le> 1" and rt: "rt \<le> 0" and d: "10 dvd rt"
    and r: "10 * INT_MIN \<le> 11 * rt"
  shows "11 * rt \<le> 10 * jitter u rt \<and> 10 * jitter u rt \<le> 9 * rt"
proof -
  obtain k where k: "rt = 10 * k" using d by (auto simp: dvd_def)
  have k0: "k \<le> 0" using rt k by simp
  define x :: rat where "x = mgos_rand_range u (of_int rt * (9 / 10)) (of_int rt * (11 / 10))"
  define t :: int where "t = (if 0 \<le> x then \<lfloor>x\<rfloor> else \<lceil>x\<rceil>)"
  have xe: "x = of_int (9 * k) + of_int (2 * k) * u"
    by (simp add: x_def mgos_rand_range_def k algebra_simps)
  have "(of_int (2 * k) :: rat) * u \<le> 0" using k0 u by (simp add: mult_nonpos_nonneg)
  then have hi: "x \<le> of_int (9 * k)" using xe by simp
  have "(of_int (2 * k) :: rat) * 1 \<le> of_int (2 * k) * u"
    using k0 u by (intro mult_left_mono_neg) simp_all
  then have lo: "of_int (11 * k) \<le> x" using xe by simp
  have c1: "11 * k \<le> \<lceil>x\<rceil>" using lo by (metis ceiling_mono ceiling_of_int)
  have c2: "\<lceil>x\<rceil> \<le> 9 * k" using hi by (simp only: ceiling_le_iff)
  have f1: "11 * k \<le> \<lfloor>x\<rfloor>" using lo by (simp only: le_floor_iff)
  have f2: "\<lfloor>x\<rfloor> \<le> 9 * k" using hi by (metis floor_mono floor_of_int)
  have t: "11 * k \<le> t" "t \<le> 9 * k" using c1 c2 f1 f2 by (simp_all add: t_def)
  have "INT_MIN \<le> 11 * k" using r k by simp
  moreover have "0 \<le> INT_MAX" by (simp add: INT_MAX_def)
  ultimately have "int_ok t" using t k0 unfolding int_ok_def by linarith
  then have "double_to_int x = t" unfolding t_def by (rule double_to_int_ok)
  then have "jitter u rt = t" by (simp add: jitter_def x_def)
  then show ?thesis using t k by simp
qed

lemma jitter_zero: "jitter u 0 = 0"
  by (simp add: jitter_def double_to_int_def mgos_rand_range_def int_ok_def INT_MIN_def
                INT_MAX_def)

lemma jitter_factor:
  assumes u: "0 \<le> u" "u \<le> 1" and d: "10 dvd rt"
    and r: "10 * INT_MIN \<le> 11 * rt" "11 * rt \<le> 10 * INT_MAX"
  shows "\<exists>f::rat. 9 / 10 \<le> f \<and> f \<le> 11 / 10 \<and> of_int (jitter u rt) = of_int rt * f"
proof (cases "rt = 0")
  case True
  then show ?thesis using jitter_zero [of u] by (intro exI [of _ 1]) simp
next
  case False
  define f :: rat where "f = of_int (jitter u rt) / of_int rt"
  have eq: "of_int (jitter u rt) = of_int rt * f" using False by (simp add: f_def)
  show ?thesis
  proof (cases "0 < rt")
    case True
    then have b: "9 * rt \<le> 10 * jitter u rt" "10 * jitter u rt \<le> 11 * rt"
      using jitter_nonneg [OF u _ d r(2)] by simp_all
    have "(of_int (9 * rt) :: rat) \<le> of_int (10 * jitter u rt)"
      using b(1) by (simp only: of_int_le_iff)
    then have 1: "9 / 10 \<le> f" using True by (simp add: f_def pos_le_divide_eq)
    have "(of_int (10 * jitter u rt) :: rat) \<le> of_int (11 * rt)"
      using b(2) by (simp only: of_int_le_iff)
    then have 2: "f \<le> 11 / 10" using True by (simp add: f_def pos_divide_le_eq)
    show ?thesis using 1 2 eq by blast
  next
    case F: False
    then have neg: "rt < 0" using False by simp
    then have b: "11 * rt \<le> 10 * jitter u rt" "10 * jitter u rt \<le> 9 * rt"
      using jitter_nonpos [OF u _ d r(1)] by simp_all
    have "(of_int (10 * jitter u rt) :: rat) \<le> of_int (9 * rt)"
      using b(2) by (simp only: of_int_le_iff)
    then have 1: "9 / 10 \<le> f" using neg by (simp add: f_def neg_le_divide_eq)
    have "(of_int (11 * rt) :: rat) \<le> of_int (10 * jitter u rt)"
      using b(1) by (simp only: of_int_le_iff)
    then have 2: "f \<le> 11 / 10" using neg by (simp add: f_def neg_divide_le_eq)
    show ?thesis using 1 2 eq by blast
  qed
qed

subsection \<open>Fresh handles\<close>

lemma fold_max_acc: "fold max xs (a::nat) = max a (fold max xs 0)"
proof (induction xs arbitrary: a)
  case Nil
  show ?case by simp
next
  case (Cons x xs)
  have "fold max (x # xs) a = max (max x a) (fold max xs 0)"
    using Cons [of "max x a"] by simp
  also have "\<dots> = max a (max x (fold max xs 0))"
    by (simp add: max.assoc max.commute)
  also have "max x (fold max xs 0) = fold max (x # xs) 0"
    using Cons [of "max x 0"] by simp
  finally show ?case .
qed

lemma fold_max_ge: "x \<in> set xs \<Longrightarrow> x \<le> fold max xs (0::nat)"
proof (induction xs)
  case Nil
  then show ?case by simp
next
  case (Cons y ys)
  have "fold max (y # ys) 0 = max y (fold max ys 0)"
    using fold_max_acc [of ys "max y 0"] by simp
  then show ?case using Cons by auto
qed

lemma fresh_id_notin: "fresh_id xs \<notin> set xs"
  using fold_max_ge [of "fresh_id xs" xs] by (auto simp: fresh_id_def)

lemma fresh_id_valid: "fresh_id xs \<noteq> MGOS_INVALID_TIMER_ID"
  by (simp add: fresh_id_def MGOS_INVALID_TIMER_ID_def)

subsection \<open>What each function leaves alone\<close>

lemma call_cb_s_state [simp]: "s_state (call_cb t d w) = s_state w"
  by (simp add: call_cb_def Let_def split: time_change_fn.split)

lemma call_cb_timers [simp]: "timers (call_cb t d w) = timers w"
  by (simp add: call_cb_def Let_def split: time_change_fn.split)

lemma call_cb_net_handlers [simp]: "net_handlers (call_cb t d w) = net_handlers w"
  by (simp add: call_cb_def Let_def split: time_change_fn.split)

lemma call_cb_cb_calls [simp]:
  "cb_calls (call_cb t d w) = cb_calls w @ [(cb t, cb_arg t, d)]"
  by (simp add: call_cb_def Let_def split: time_change_fn.split)

lemma notify_all_s_state [simp]: "s_state (notify_all ts d w) = s_state w"
  by (induction ts arbitrary: w) simp_all

lemma notify_all_timers [simp]: "timers (notify_all ts d w) = timers w"
  by (induction ts arbitrary: w) simp_all

lemma notify_all_net_handlers [simp]: "net_handlers (notify_all ts d w) = net_handlers w"
  by (induction ts arbitrary: w) simp_all

lemma notify_all_cb_calls:
  "cb_calls (notify_all ts d w) = cb_calls w @ map (\<lambda>t. (cb t, cb_arg t, d)) ts"
  by (induction ts arbitrary: w) simp_all

lemma set_close_flag_fields [simp]:
  "s_state (set_close_flag p w) = s_state w"
  "timers (set_close_flag p w) = timers w"
  "cb_calls (set_close_flag p w) = cb_calls w"
  "net_handlers (set_close_flag p w) = net_handlers w"
  by (simp_all add: set_close_flag_def)

lemma mgos_clear_timer_fields [simp]:
  "s_state (mgos_clear_timer tid w) = s_state w"
  "mgr (mgos_clear_timer tid w) = mgr w"
  "cb_calls (mgos_clear_timer tid w) = cb_calls w"
  "net_handlers (mgos_clear_timer tid w) = net_handlers w"
  "timers (mgos_clear_timer tid w) = filter (\<lambda>t. fst t \<noteq> tid) (timers w)"
  by (simp_all add: mgos_clear_timer_def)

lemma register_all_snoc:
  "register_all (regs @ [r]) w = mgos_sntp_add_time_change_cb (fst r) (snd r) (register_all regs w)"
  by (simp add: register_all_def)

lemma register_all_cbs:
  "time_change_cbs (s_state (register_all regs w)) =
     map (\<lambda>r. \<lparr>cb = fst r, cb_arg = snd r\<rparr>) (rev regs) @ time_change_cbs (s_state w)"
proof (induction regs rule: rev_induct)
  case Nil
  show ?case by (simp add: register_all_def)
next
  case (snoc r regs)
  then show ?case by (simp add: register_all_snoc mgos_sntp_add_time_change_cb_def)
qed

lemma register_all_cb_calls: "cb_calls (register_all regs w) = cb_calls w"
proof (induction regs rule: rev_induct)
  case Nil
  show ?case by (simp add: register_all_def)
next
  case (snoc r regs)
  then show ?case by (simp add: register_all_snoc mgos_sntp_add_time_change_cb_def)
qed

subsection \<open>The reply handler, field by field\<close>

lemma reply_s_state:
  "s_state (mgos_sntp_ev scfg e p (MG_SNTP_REPLY t) w) =
     (s_state w)\<lparr>retry_timeout_ms := 0, synced := True,
                 retry_timer_id := MGOS_INVALID_TIMER_ID\<rparr>"
  by (simp add: Let_def)

lemma reply_timers:
  "timers (mgos_sntp_ev scfg e p (MG_SNTP_REPLY t) w) =
     (if retry_timer_id (s_state w) \<noteq> MGOS_INVALID_TIMER_ID
      then filter (\<lambda>x. fst x \<noteq> retry_timer_id (s_state w)) (timers w) else timers w)"
  by (simp add: Let_def)

lemma reply_cb_calls:
  "cb_calls (mgos_sntp_ev scfg e p (MG_SNTP_REPLY t) w) =
     (if settimeofday_result e = 0
      then cb_calls w @ map (\<lambda>x. (cb x, cb_arg x, t - mg_time e)) (time_change_cbs (s_state w))
      else cb_calls w)"
  by (simp add: Let_def notify_all_cb_calls)

lemma reply_mgr_failed:
  "settimeofday_result e \<noteq> 0 \<Longrightarrow>
   mgr (mgos_sntp_ev scfg e p (MG_SNTP_REPLY t) w) = mgr (set_close_flag p w)"
  by (simp add: Let_def set_close_flag_def)

text \<open>From here on the reply handler is used through these four facts.\<close>

declare mgos_sntp_ev.simps(2) [simp del]

subsection \<open>\<^verbatim>\<open>mgos_sntp_retry\<close>, field by field\<close>

lemma mgos_sntp_retry_noop:
  "\<not> enable scfg \<or> retry_timer_id (s_state w) \<noteq> MGOS_INVALID_TIMER_ID \<Longrightarrow>
   mgos_sntp_retry scfg e w = w"
  by (auto simp: mgos_sntp_retry_def)

lemma mgos_sntp_retry_frame [simp]:
  "nc (s_state (mgos_sntp_retry scfg e w)) = nc (s_state w)"
  "synced (s_state (mgos_sntp_retry scfg e w)) = synced (s_state w)"
  "time_change_cbs (s_state (mgos_sntp_retry scfg e w)) = time_change_cbs (s_state w)"
  "mgr (mgos_sntp_retry scfg e w) = mgr w"
  "cb_calls (mgos_sntp_retry scfg e w) = cb_calls w"
  "net_handlers (mgos_sntp_retry scfg e w) = net_handlers w"
  by (simp_all add: mgos_sntp_retry_def mgos_set_timer_def Let_def split: prod.split)

lemma mgos_sntp_retry_backoff:
  "enable scfg \<Longrightarrow> retry_timer_id (s_state w) = MGOS_INVALID_TIMER_ID \<Longrightarrow>
   retry_timeout_ms (s_state (mgos_sntp_retry scfg e w)) =
     (if synced (s_state w) then retry_timeout_ms (s_state w)
      else next_backoff scfg (retry_timeout_ms (s_state w)))"
  by (simp add: mgos_sntp_retry_def mgos_set_timer_def next_backoff_def Let_def
           split: prod.split)

lemma mgos_sntp_retry_timers:
  "enable scfg \<Longrightarrow> retry_timer_id (s_state w) = MGOS_INVALID_TIMER_ID \<Longrightarrow>
   timers (mgos_sntp_retry scfg e w) =
     timers w @ [(fresh_id (map fst (timers w)),
                  jitter (rand_unit e)
                    (if synced (s_state w) then c_mul (update_interval scfg) 1000
                     else next_backoff scfg (retry_timeout_ms (s_state w))))]"
  by (simp add: mgos_sntp_retry_def mgos_set_timer_def next_backoff_def jitter_def Let_def
           split: prod.split)

lemma mgos_sntp_retry_timer_id:
  "enable scfg \<Longrightarrow> retry_timer_id (s_state w) = MGOS_INVALID_TIMER_ID \<Longrightarrow>
   retry_timer_id (s_state (mgos_sntp_retry scfg e w)) = fresh_id (map fst (timers w))"
  by (simp add: mgos_sntp_retry_def mgos_set_timer_def Let_def split: prod.split)

lemma next_backoff_clamp:
  assumes "int_ok (b * 2)" "int_ok (retry_min scfg * 1000)" "int_ok (retry_max scfg * 1000)"
  shows "next_backoff scfg b = min (retry_max scfg * 1000) (max (retry_min scfg * 1000) (b * 2))"
  using assms by (simp add: next_backoff_def c_mul_ok Let_def min_def max_def)

text \<open>The definitions a concrete run is evaluated with.\<close>

lemmas run_defs =
  cfg0_def env0_def boot_def world_attempt_def mgos_sntp_net_ev_def mgos_sntp_retry_def
  mgos_set_timer_def fresh_id_def mgos_sntp_retry_timer_cb_def mgos_sntp_query_def Let_def
  MGOS_INVALID_TIMER_ID_def c_mul_def wrap_int_def mgos_rand_range_def double_to_int_def
  mg_sntp_connect_def session_ptrs_def set_close_flag_def mgos_clear_timer_def
  mgos_sntp_add_time_change_cb_def call_cb_def mgos_time_change_cb_def mgos_sntp_init_def
  MG_F_CLOSE_IMMEDIATELY_def register_all_def jitter_def next_backoff_def int_ok_def
  INT_MIN_def INT_MAX_def

section \<open>The built-in observer\<close>

text \<open>
  C10. \<^verbatim>\<open>mgos_time_change_cb\<close> walks the connections of the manager and adds the delta
  to \<^verbatim>\<open>ev_timer_time\<close> exactly where it is strictly positive. The manager keeps its
  connections; a connection whose \<^verbatim>\<open>ev_timer_time\<close> is zero or negative is unchanged, and
  every other field of every connection (the extension of the record stands for the
  fields of the C struct the file does not touch) is unchanged.
\<close>

theorem mgos_time_change_cb_frame:
  "length (mgos_time_change_cb m delta) = length m \<and>
   (\<forall>i < length m.
      (let c = m ! i; c' = mgos_time_change_cb m delta ! i
       in (ev_timer_time c > 0 \<longrightarrow> c' = c\<lparr>ev_timer_time := ev_timer_time c + delta\<rparr>) \<and>
          (ev_timer_time c \<le> 0 \<longrightarrow> c' = c) \<and>
          conn_ptr c' = conn_ptr c \<and> handler c' = handler c \<and> flags c' = flags c \<and>
          mg_connection.more c' = mg_connection.more c))"
  by (simp add: mgos_time_change_cb_def Let_def)

theorem mgos_time_change_cb_frame_witness:
  "mgos_time_change_cb [conn_a, conn_b, conn_c] (- 20) =
     [conn_a\<lparr>ev_timer_time := 30\<rparr>, conn_b, conn_c]"
  using mgos_time_change_cb_frame [of "[conn_a, conn_b, conn_c]" "- 20"]
  by (simp add: conn_a_def conn_b_def conn_c_def mgos_time_change_cb_def)

section \<open>Initialisation\<close>

text \<open>
  C8, as the code has it. \<^verbatim>\<open>mgos_sntp_init\<close> returns \<^verbatim>\<open>MGOS_INIT_OK\<close> when the feature
  is disabled and \<^verbatim>\<open>MGOS_INIT_SNTP_INIT_FAILED\<close> when it is enabled and the server address
  is \<^verbatim>\<open>NULL\<close>; in both cases it leaves the world as it was, so no timer is armed and no
  session is started. The test is for \<^verbatim>\<open>NULL\<close> only: with any other server address, the
  empty string included, it registers the built-in observer and the network handler and
  returns \<^verbatim>\<open>MGOS_INIT_OK\<close>, still without arming a timer or starting a session.
\<close>

theorem mgos_sntp_init_result:
  "(\<not> enable scfg \<longrightarrow> mgos_sntp_init scfg w = (MGOS_INIT_OK, w)) \<and>
   (enable scfg \<and> server scfg = None \<longrightarrow>
      mgos_sntp_init scfg w = (MGOS_INIT_SNTP_INIT_FAILED, w)) \<and>
   (enable scfg \<and> server scfg \<noteq> None \<longrightarrow>
      fst (mgos_sntp_init scfg w) = MGOS_INIT_OK \<and>
      timers (snd (mgos_sntp_init scfg w)) = timers w \<and>
      mgr (snd (mgos_sntp_init scfg w)) = mgr w \<and>
      nc (s_state (snd (mgos_sntp_init scfg w))) = nc (s_state w) \<and>
      time_change_cbs (s_state (snd (mgos_sntp_init scfg w))) =
        \<lparr>cb = CB_mgos_time_change_cb, cb_arg = mgos_get_mgr\<rparr> # time_change_cbs (s_state w) \<and>
      net_handlers (snd (mgos_sntp_init scfg w)) = Suc (net_handlers w))"
  by (simp add: mgos_sntp_init_def mgos_sntp_add_time_change_cb_def Let_def)

theorem mgos_sntp_init_result_witness:
  "mgos_sntp_init (cfg0\<lparr>enable := False\<rparr>) (boot []) = (MGOS_INIT_OK, boot []) \<and>
   mgos_sntp_init (cfg0\<lparr>server := None\<rparr>) (boot []) = (MGOS_INIT_SNTP_INIT_FAILED, boot []) \<and>
   fst (mgos_sntp_init cfg0 (boot [])) = MGOS_INIT_OK \<and>
   timers (snd (mgos_sntp_init cfg0 (boot []))) = [] \<and>
   net_handlers (snd (mgos_sntp_init cfg0 (boot []))) = 1"
  using mgos_sntp_init_result [of "cfg0\<lparr>enable := False\<rparr>" "boot []"]
        mgos_sntp_init_result [of "cfg0\<lparr>server := None\<rparr>" "boot []"]
        mgos_sntp_init_result [of cfg0 "boot []"]
  by (simp add: cfg0_def boot_def)

text \<open>
  The claim as the specification words it counts the empty server address among the
  configuration errors. Enabled and with the empty string as the server, the function
  returns \<^verbatim>\<open>MGOS_INIT_OK\<close>.
\<close>

theorem mgos_sntp_init_empty_server_counterexample:
  "enable (cfg0\<lparr>server := Some ''''\<rparr>) \<and>
   fst (mgos_sntp_init (cfg0\<lparr>server := Some ''''\<rparr>) (boot [])) = MGOS_INIT_OK \<and>
   fst (mgos_sntp_init (cfg0\<lparr>server := Some ''''\<rparr>) (boot [])) \<noteq> MGOS_INIT_SNTP_INIT_FAILED"
  by (simp add: mgos_sntp_init_def cfg0_def Let_def)

section \<open>The reply handler\<close>

text \<open>
  C1, as the code has it. When \<^verbatim>\<open>settimeofday\<close> fails, no observer is called. The
  statements after the \<^verbatim>\<open>if\<close> run all the same: \<^verbatim>\<open>synced\<close> becomes true,
  \<^verbatim>\<open>retry_timeout_ms\<close> becomes 0, the connection is flagged for closing and the pending
  retry timer is cancelled, so that the static state is the one a successful reply
  leaves. The next \<^verbatim>\<open>mgos_sntp_retry\<close> (with the feature enabled) therefore takes the
  steady-state branch: it arms the timer from \<^verbatim>\<open>update_interval\<close> and leaves the
  backoff at 0.
\<close>

theorem reply_settimeofday_failed:
  assumes "settimeofday_result e \<noteq> 0"
  shows "cb_calls (mgos_sntp_ev scfg e p (MG_SNTP_REPLY t) w) = cb_calls w \<and>
         synced (s_state (mgos_sntp_ev scfg e p (MG_SNTP_REPLY t) w)) \<and>
         retry_timeout_ms (s_state (mgos_sntp_ev scfg e p (MG_SNTP_REPLY t) w)) = 0 \<and>
         retry_timer_id (s_state (mgos_sntp_ev scfg e p (MG_SNTP_REPLY t) w)) =
           MGOS_INVALID_TIMER_ID \<and>
         timers (mgos_sntp_ev scfg e p (MG_SNTP_REPLY t) w) =
           (if retry_timer_id (s_state w) \<noteq> MGOS_INVALID_TIMER_ID
            then filter (\<lambda>x. fst x \<noteq> retry_timer_id (s_state w)) (timers w) else timers w) \<and>
         mgr (mgos_sntp_ev scfg e p (MG_SNTP_REPLY t) w) = mgr (set_close_flag p w) \<and>
         s_state (mgos_sntp_ev scfg e p (MG_SNTP_REPLY t) w) =
           s_state (mgos_sntp_ev scfg (e\<lparr>settimeofday_result := 0\<rparr>) p (MG_SNTP_REPLY t) w) \<and>
         (enable scfg \<longrightarrow>
            retry_timeout_ms (s_state (mgos_sntp_retry scfg e'
               (mgos_sntp_ev scfg e p (MG_SNTP_REPLY t) w))) = 0 \<and>
            timers (mgos_sntp_retry scfg e' (mgos_sntp_ev scfg e p (MG_SNTP_REPLY t) w)) =
              timers (mgos_sntp_ev scfg e p (MG_SNTP_REPLY t) w) @
              [(fresh_id (map fst (timers (mgos_sntp_ev scfg e p (MG_SNTP_REPLY t) w))),
                jitter (rand_unit e') (c_mul (update_interval scfg) 1000))])"
proof -
  let ?w' = "mgos_sntp_ev scfg e p (MG_SNTP_REPLY t) w"
  have st: "s_state ?w' = (s_state w)\<lparr>retry_timeout_ms := 0, synced := True,
                 retry_timer_id := MGOS_INVALID_TIMER_ID\<rparr>"
    by (rule reply_s_state)
  have 1: "cb_calls ?w' = cb_calls w" using assms by (simp add: reply_cb_calls)
  have 2: "synced (s_state ?w')" by (simp add: st)
  have 3: "retry_timeout_ms (s_state ?w') = 0" by (simp add: st)
  have 4: "retry_timer_id (s_state ?w') = MGOS_INVALID_TIMER_ID" by (simp add: st)
  have 5: "timers ?w' =
           (if retry_timer_id (s_state w) \<noteq> MGOS_INVALID_TIMER_ID
            then filter (\<lambda>x. fst x \<noteq> retry_timer_id (s_state w)) (timers w) else timers w)"
    by (rule reply_timers)
  have 6: "mgr ?w' = mgr (set_close_flag p w)" using assms by (rule reply_mgr_failed)
  have 7: "s_state ?w' =
           s_state (mgos_sntp_ev scfg (e\<lparr>settimeofday_result := 0\<rparr>) p (MG_SNTP_REPLY t) w)"
    by (simp only: reply_s_state)
  have 8: "retry_timeout_ms (s_state (mgos_sntp_retry scfg e' ?w')) = 0" if "enable scfg"
    using that 2 3 4 by (simp only: mgos_sntp_retry_backoff if_True)
  have 9: "timers (mgos_sntp_retry scfg e' ?w') =
              timers ?w' @ [(fresh_id (map fst (timers ?w')),
                jitter (rand_unit e') (c_mul (update_interval scfg) 1000))]" if "enable scfg"
    using that 2 4 by (simp only: mgos_sntp_retry_timers if_True)
  show ?thesis using 1 2 3 4 5 6 7 8 9 by blast
qed

theorem reply_settimeofday_failed_witness:
  "settimeofday_result (env0\<lparr>settimeofday_result := - 1\<rparr>) \<noteq> 0 \<and>
   cb_calls (mgos_sntp_ev cfg0 (env0\<lparr>settimeofday_result := - 1\<rparr>) 1 (MG_SNTP_REPLY 1500)
               world_attempt) = [] \<and>
   timers (mgos_sntp_retry cfg0 env0
             (mgos_sntp_ev cfg0 (env0\<lparr>settimeofday_result := - 1\<rparr>) 1 (MG_SNTP_REPLY 1500)
                world_attempt)) = [(1, 7200000)]"
  using reply_settimeofday_failed
          [of "env0\<lparr>settimeofday_result := - 1\<rparr>" cfg0 1 1500 world_attempt env0]
  by (simp add: run_defs mgos_sntp_ev.simps(2))

text \<open>
  The claim as the specification words it has \<^verbatim>\<open>synced\<close> and the backoff unchanged and
  the pending timer still armed. In the middle of a first attempt (not synced, backoff
  20000 ms, retry timer 1 armed), a reply whose time cannot be set leaves \<^verbatim>\<open>synced\<close>
  true, the backoff 0 and no timer armed.
\<close>

theorem reply_settimeofday_failed_counterexample:
  "settimeofday_result (env0\<lparr>settimeofday_result := - 1\<rparr>) \<noteq> 0 \<and>
   \<not> synced (s_state world_attempt) \<and>
   retry_timeout_ms (s_state world_attempt) = 20000 \<and>
   timers world_attempt = [(1, 20000)] \<and>
   synced (s_state (mgos_sntp_ev cfg0 (env0\<lparr>settimeofday_result := - 1\<rparr>) 1
                      (MG_SNTP_REPLY 1500) world_attempt)) \<and>
   retry_timeout_ms (s_state (mgos_sntp_ev cfg0 (env0\<lparr>settimeofday_result := - 1\<rparr>) 1
                      (MG_SNTP_REPLY 1500) world_attempt)) = 0 \<and>
   timers (mgos_sntp_ev cfg0 (env0\<lparr>settimeofday_result := - 1\<rparr>) 1
             (MG_SNTP_REPLY 1500) world_attempt) = []"
  by (simp add: run_defs mgos_sntp_ev.simps(2))

text \<open>
  C2, as the code has it. \<^verbatim>\<open>mgos_sntp_add_time_change_cb\<close> inserts at the head of the
  list and the reply handler walks the list from the head: after the time has been set,
  every registered observer is called once for each of its registrations, with
  \<^verbatim>\<open>delta = m->time - now\<close>, the observer registered last first. For observers \<open>regs\<close>
  registered in this order on top of the ones the world already has, the calls the
  handler adds are those of \<open>rev regs\<close>, then those of the older observers.
\<close>

theorem reply_notifies_observers:
  assumes "settimeofday_result e = 0"
  shows "cb_calls (mgos_sntp_ev scfg e p (MG_SNTP_REPLY t) (register_all regs w)) =
           cb_calls w @
           map (\<lambda>r. (fst r, snd r, t - mg_time e)) (rev regs) @
           map (\<lambda>x. (cb x, cb_arg x, t - mg_time e)) (time_change_cbs (s_state w))"
  using assms
  by (simp add: reply_cb_calls register_all_cbs register_all_cb_calls comp_def
          )

theorem reply_notifies_observers_witness:
  "settimeofday_result env0 = 0 \<and>
   cb_calls (mgos_sntp_ev cfg0 env0 1 (MG_SNTP_REPLY 1500)
               (register_all [(CB_user 1, 7), (CB_user 2, 8), (CB_user 1, 7)] world_attempt)) =
     [(CB_user 1, 7, 500), (CB_user 2, 8, 500), (CB_user 1, 7, 500), (CB_user 4, 9, 500)]"
  using reply_notifies_observers
          [of env0 cfg0 1 1500 "[(CB_user 1, 7), (CB_user 2, 8), (CB_user 1, 7)]" world_attempt]
  by (simp add: run_defs mgos_sntp_ev.simps(2))

text \<open>
  The claim as the specification words it has the first-registered observer called
  first. With observer 1 registered before observer 2, the handler calls observer 2
  first.
\<close>

theorem reply_notifies_observers_counterexample:
  "cb_calls (mgos_sntp_ev cfg0 env0 1 (MG_SNTP_REPLY 1500)
               (register_all [(CB_user 1, 7), (CB_user 2, 8)] (boot []))) =
     [(CB_user 2, 8, 500), (CB_user 1, 7, 500)] \<and>
   cb_calls (mgos_sntp_ev cfg0 env0 1 (MG_SNTP_REPLY 1500)
               (register_all [(CB_user 1, 7), (CB_user 2, 8)] (boot []))) \<noteq>
     [(CB_user 1, 7, 500), (CB_user 2, 8, 500)]"
  by (simp add: run_defs mgos_sntp_ev.simps(2))

section \<open>Scheduling the next attempt\<close>

text \<open>A second call of \<^verbatim>\<open>mgos_sntp_retry\<close> finds the timer armed, or the feature disabled.\<close>

lemma mgos_sntp_retry_idem:
  "mgos_sntp_retry scfg e' (mgos_sntp_retry scfg e w) = mgos_sntp_retry scfg e w"
proof (cases "enable scfg \<and> retry_timer_id (s_state w) = MGOS_INVALID_TIMER_ID")
  case True
  then have "retry_timer_id (s_state (mgos_sntp_retry scfg e w)) \<noteq> MGOS_INVALID_TIMER_ID"
    by (simp add: mgos_sntp_retry_timer_id fresh_id_valid)
  then show ?thesis by (simp add: mgos_sntp_retry_noop)
next
  case False
  then have "mgos_sntp_retry scfg e'' w = w" for e''
    by (auto simp: mgos_sntp_retry_noop)
  then show ?thesis by simp
qed

text \<open>
  C5, as the code has it. Once \<^verbatim>\<open>synced\<close> is true, \<^verbatim>\<open>mgos_sntp_retry\<close> (feature enabled,
  no timer armed) arms one timer whose delay is \<^verbatim>\<open>update_interval * 1000\<close> times a factor
  between 0.9 and 1.1, whatever the stored backoff is, and leaves the stored backoff as
  it was, provided eleven tenths of \<^verbatim>\<open>update_interval * 1000\<close>, that is
  \<^verbatim>\<open>update_interval * 1100\<close>, are representable as \<^verbatim>\<open>int\<close>: then so are
  \<^verbatim>\<open>update_interval * 1000\<close> and the cast of every draw on line 126, and the armed delay
  is representable. The reply handler leaves exactly such a state: \<^verbatim>\<open>synced\<close> true and no
  retry timer. (The draw is an exact rational between the two bounds;
  \<^verbatim>\<open>update_interval * 1000\<close> is a multiple of 10, so the truncation stays within the
  bounds.)
\<close>

theorem steady_state_delay:
  assumes en: "enable scfg"
    and sy: "synced (s_state w)"
    and ti: "retry_timer_id (s_state w) = MGOS_INVALID_TIMER_ID"
    and ok: "int_ok (update_interval scfg * 1100)"
    and u: "0 \<le> rand_unit e" "rand_unit e \<le> 1"
  shows "(\<exists>d f. timers (mgos_sntp_retry scfg e w) =
                  timers w @ [(retry_timer_id (s_state (mgos_sntp_retry scfg e w)), d)] \<and>
                int_ok d \<and> 9 / 10 \<le> f \<and> f \<le> 11 / 10 \<and>
                (of_int d :: rat) = of_int (update_interval scfg * 1000) * f) \<and>
         retry_timer_id (s_state (mgos_sntp_retry scfg e w)) \<noteq> MGOS_INVALID_TIMER_ID \<and>
         retry_timeout_ms (s_state (mgos_sntp_retry scfg e w)) = retry_timeout_ms (s_state w) \<and>
         synced (s_state (mgos_sntp_ev scfg e0 p (MG_SNTP_REPLY t) w0)) \<and>
         retry_timer_id (s_state (mgos_sntp_ev scfg e0 p (MG_SNTP_REPLY t) w0)) =
           MGOS_INVALID_TIMER_ID"
proof -
  let ?U = "update_interval scfg * 1000"
  let ?w' = "mgos_sntp_retry scfg e w"
  have lo: "INT_MIN \<le> update_interval scfg * 1100" and hi: "update_interval scfg * 1100 \<le> INT_MAX"
    using ok by (simp_all add: int_ok_def)
  have neg: "INT_MIN \<le> 0" and pos: "0 \<le> INT_MAX" by (simp_all add: INT_MIN_def INT_MAX_def)
  have ok1: "int_ok ?U" unfolding int_ok_def using lo hi neg pos by linarith
  have r: "10 * INT_MIN \<le> 11 * ?U" "11 * ?U \<le> 10 * INT_MAX" using lo hi by linarith+
  have cm: "c_mul (update_interval scfg) 1000 = ?U" using ok1 by (rule c_mul_ok)
  have tm: "timers ?w' = timers w @ [(fresh_id (map fst (timers w)), jitter (rand_unit e) ?U)]"
    using en sy ti cm by (simp add: mgos_sntp_retry_timers)
  have id: "retry_timer_id (s_state ?w') = fresh_id (map fst (timers w))"
    using en ti by (rule mgos_sntp_retry_timer_id)
  have dv: "10 dvd ?U" by simp
  obtain f :: rat where f: "9 / 10 \<le> f" "f \<le> 11 / 10"
      "of_int (jitter (rand_unit e) ?U) = of_int ?U * f"
    using jitter_factor [OF u dv r] by blast
  have jo: "int_ok (jitter (rand_unit e) ?U)"
  proof (cases "0 \<le> ?U")
    case True
    then have "9 * ?U \<le> 10 * jitter (rand_unit e) ?U \<and> 10 * jitter (rand_unit e) ?U \<le> 11 * ?U"
      using jitter_nonneg [OF u _ dv r(2)] by blast
    then show ?thesis unfolding int_ok_def using True r neg by linarith
  next
    case False
    then have "?U \<le> 0" by simp
    then have "11 * ?U \<le> 10 * jitter (rand_unit e) ?U \<and> 10 * jitter (rand_unit e) ?U \<le> 9 * ?U"
      using jitter_nonpos [OF u _ dv r(1)] by blast
    then show ?thesis unfolding int_ok_def using False r pos by linarith
  qed
  have 1: "\<exists>d f. timers ?w' = timers w @ [(retry_timer_id (s_state ?w'), d)] \<and>
                int_ok d \<and> 9 / 10 \<le> f \<and> f \<le> 11 / 10 \<and> (of_int d :: rat) = of_int ?U * f"
    using tm id f jo by metis
  have 2: "retry_timer_id (s_state ?w') \<noteq> MGOS_INVALID_TIMER_ID"
    using id by (simp add: fresh_id_valid)
  have 3: "retry_timeout_ms (s_state ?w') = retry_timeout_ms (s_state w)"
    using en sy ti by (simp add: mgos_sntp_retry_backoff)
  have 4: "synced (s_state (mgos_sntp_ev scfg e0 p (MG_SNTP_REPLY t) w0))"
    by (simp add: reply_s_state)
  have 5: "retry_timer_id (s_state (mgos_sntp_ev scfg e0 p (MG_SNTP_REPLY t) w0)) =
           MGOS_INVALID_TIMER_ID"
    by (simp add: reply_s_state)
  show ?thesis using 1 2 3 4 5 by blast
qed

theorem steady_state_delay_witness:
  "enable cfg0 \<and> int_ok (update_interval cfg0 * 1100) \<and>
   0 \<le> rand_unit env0 \<and> rand_unit env0 \<le> 1 \<and>
   timers (mgos_sntp_retry cfg0 env0 (mgos_sntp_ev cfg0 env0 1 (MG_SNTP_REPLY 1500) world_attempt))
     = [(1, 7200000)] \<and>
   retry_timeout_ms (s_state (mgos_sntp_retry cfg0 env0
       (mgos_sntp_ev cfg0 env0 1 (MG_SNTP_REPLY 1500) world_attempt))) = 0"
  using steady_state_delay
     [of cfg0 "mgos_sntp_ev cfg0 env0 1 (MG_SNTP_REPLY 1500) world_attempt" env0 env0 1 1500
         world_attempt]
  by (simp add: run_defs mgos_sntp_ev.simps(2))

text \<open>
  The claim as the specification words it holds after any successful sync. With
  \<^verbatim>\<open>update_interval = 2147483\<close> the product \<^verbatim>\<open>update_interval * 1000 = 2147483000\<close> is
  representable, its eleven tenths are not: after a reply, with the draw at the upper
  end of the interval, the cast of line 126 is out of range and the timer is armed with
  \<^verbatim>\<open>INT_MIN\<close>, a negative delay, far below nine tenths of 2147483000.
\<close>

theorem steady_state_delay_counterexample:
  "enable (cfg0\<lparr>update_interval := 2147483\<rparr>) \<and>
   int_ok (update_interval (cfg0\<lparr>update_interval := 2147483\<rparr>) * 1000) \<and>
   update_interval (cfg0\<lparr>update_interval := 2147483\<rparr>) * 1000 = 2147483000 \<and>
   0 \<le> rand_unit (env0\<lparr>rand_unit := 1\<rparr>) \<and> rand_unit (env0\<lparr>rand_unit := 1\<rparr>) \<le> 1 \<and>
   synced (s_state (mgos_sntp_ev (cfg0\<lparr>update_interval := 2147483\<rparr>) env0 1
                      (MG_SNTP_REPLY 1500) world_attempt)) \<and>
   retry_timer_id (s_state (mgos_sntp_ev (cfg0\<lparr>update_interval := 2147483\<rparr>) env0 1
                      (MG_SNTP_REPLY 1500) world_attempt)) = MGOS_INVALID_TIMER_ID \<and>
   timers (mgos_sntp_retry (cfg0\<lparr>update_interval := 2147483\<rparr>) (env0\<lparr>rand_unit := 1\<rparr>)
             (mgos_sntp_ev (cfg0\<lparr>update_interval := 2147483\<rparr>) env0 1
                (MG_SNTP_REPLY 1500) world_attempt)) = [(1, - 2147483648)] \<and>
   10 * (- 2147483648) < 9 * (update_interval (cfg0\<lparr>update_interval := 2147483\<rparr>) * 1000)"
  by (simp add: run_defs mgos_sntp_ev.simps(2))

text \<open>
  C7. The close event of the tracked session clears \<^verbatim>\<open>s_state.nc\<close> and runs
  \<^verbatim>\<open>mgos_sntp_retry\<close> once. \<^verbatim>\<open>mgos_sntp_retry\<close> does nothing while a timer is armed,
  so the close leaves the armed timer alone in that case, arms exactly one timer when
  none is armed and the feature is enabled, and never adds more than one; running
  \<^verbatim>\<open>mgos_sntp_retry\<close> again afterwards changes nothing.
\<close>

theorem close_schedules_once:
  assumes "nc (s_state w) = Some p"
  shows "mgos_sntp_ev scfg e p MG_EV_CLOSE w =
           mgos_sntp_retry scfg e (w\<lparr>s_state := (s_state w)\<lparr>nc := None\<rparr>\<rparr>) \<and>
         nc (s_state (mgos_sntp_ev scfg e p MG_EV_CLOSE w)) = None \<and>
         (retry_timer_id (s_state w) \<noteq> MGOS_INVALID_TIMER_ID \<longrightarrow>
            mgos_sntp_retry scfg e w = w \<and>
            timers (mgos_sntp_ev scfg e p MG_EV_CLOSE w) = timers w \<and>
            retry_timer_id (s_state (mgos_sntp_ev scfg e p MG_EV_CLOSE w)) =
              retry_timer_id (s_state w)) \<and>
         (retry_timer_id (s_state w) = MGOS_INVALID_TIMER_ID \<and> enable scfg \<longrightarrow>
            (\<exists>d. timers (mgos_sntp_ev scfg e p MG_EV_CLOSE w) =
                   timers w @ [(retry_timer_id (s_state (mgos_sntp_ev scfg e p MG_EV_CLOSE w)), d)]) \<and>
            retry_timer_id (s_state (mgos_sntp_ev scfg e p MG_EV_CLOSE w)) \<noteq>
              MGOS_INVALID_TIMER_ID) \<and>
         length (timers (mgos_sntp_ev scfg e p MG_EV_CLOSE w)) \<le> Suc (length (timers w)) \<and>
         mgos_sntp_retry scfg e' (mgos_sntp_ev scfg e p MG_EV_CLOSE w) =
           mgos_sntp_ev scfg e p MG_EV_CLOSE w"
proof -
  let ?w0 = "w\<lparr>s_state := (s_state w)\<lparr>nc := None\<rparr>\<rparr>"
  let ?w' = "mgos_sntp_ev scfg e p MG_EV_CLOSE w"
  have 1: "?w' = mgos_sntp_retry scfg e ?w0" using assms by simp
  have 2: "nc (s_state ?w') = None" unfolding 1 by simp
  have 3: "mgos_sntp_retry scfg e w = w \<and> timers ?w' = timers w \<and>
           retry_timer_id (s_state ?w') = retry_timer_id (s_state w)"
    if "retry_timer_id (s_state w) \<noteq> MGOS_INVALID_TIMER_ID"
  proof -
    have "mgos_sntp_retry scfg e ?w0 = ?w0" using that by (simp add: mgos_sntp_retry_noop)
    then have "?w' = ?w0" using 1 by simp
    then show ?thesis using that by (simp add: mgos_sntp_retry_noop)
  qed
  have 4: "(\<exists>d. timers ?w' = timers w @ [(retry_timer_id (s_state ?w'), d)]) \<and>
           retry_timer_id (s_state ?w') \<noteq> MGOS_INVALID_TIMER_ID"
    if "retry_timer_id (s_state w) = MGOS_INVALID_TIMER_ID \<and> enable scfg"
  proof -
    have a: "enable scfg" "retry_timer_id (s_state ?w0) = MGOS_INVALID_TIMER_ID"
      using that by simp_all
    have "retry_timer_id (s_state ?w') = fresh_id (map fst (timers w))"
      unfolding 1 using mgos_sntp_retry_timer_id [OF a] by simp
    moreover have "\<exists>d. timers ?w' = timers w @ [(fresh_id (map fst (timers w)), d)]"
      unfolding 1 using mgos_sntp_retry_timers [OF a] by simp
    ultimately show ?thesis by (simp add: fresh_id_valid)
  qed
  have 5: "length (timers ?w') \<le> Suc (length (timers w))"
  proof (cases "retry_timer_id (s_state w) = MGOS_INVALID_TIMER_ID \<and> enable scfg")
    case True
    then show ?thesis using 4 by auto
  next
    case False
    then have "mgos_sntp_retry scfg e ?w0 = ?w0" by (auto simp: mgos_sntp_retry_noop)
    then have "?w' = ?w0" using 1 by simp
    then show ?thesis by simp
  qed
  have 6: "mgos_sntp_retry scfg e' ?w' = ?w'"
    unfolding 1 by (rule mgos_sntp_retry_idem)
  show ?thesis using 1 2 3 4 5 6 by blast
qed

theorem close_schedules_once_witness:
  "nc (s_state world_attempt) = Some 1 \<and>
   mgos_sntp_ev cfg0 env0 1 MG_EV_CLOSE world_attempt =
     world_attempt\<lparr>s_state := (s_state world_attempt)\<lparr>nc := None\<rparr>\<rparr> \<and>
   timers (mgos_sntp_ev cfg0 env0 1 MG_EV_CLOSE
             (mgos_sntp_ev cfg0 env0 1 (MG_SNTP_REPLY 1500) world_attempt)) = [(1, 7200000)]"
  using close_schedules_once [of world_attempt 1 cfg0 env0 env0]
        close_schedules_once [of "mgos_sntp_ev cfg0 env0 1 (MG_SNTP_REPLY 1500) world_attempt"
                                 1 cfg0 env0 env0]
  by (simp add: run_defs mgos_sntp_ev.simps(2))

section \<open>Runs of the event loop\<close>

lemma run_append:
  "run scfg (xs @ ys) w = (case run scfg xs w of None \<Rightarrow> None | Some w1 \<Rightarrow> run scfg ys w1)"
  by (induction xs arbitrary: w) (simp_all split: option.split)

lemma sessions_map:
  assumes "\<And>c. handler (f c) = handler c" "\<And>c. conn_ptr (f c) = conn_ptr c"
  shows "map conn_ptr (filter (\<lambda>c. handler c = h) (map f m)) =
         map conn_ptr (filter (\<lambda>c. handler c = h) m)"
  by (induction m) (simp_all add: assms)

lemma session_ptrs_mgr: "mgr w' = mgr w \<Longrightarrow> session_ptrs w' = session_ptrs w"
  by (simp add: session_ptrs_def)

lemma session_ptrs_set_close_flag [simp]: "session_ptrs (set_close_flag p w) = session_ptrs w"
  unfolding session_ptrs_def set_close_flag_def by (simp add: sessions_map)

lemma session_ptrs_call_cb [simp]: "session_ptrs (call_cb t d w) = session_ptrs w"
  unfolding session_ptrs_def call_cb_def mgos_time_change_cb_def
  by (simp add: Let_def sessions_map split: time_change_fn.split)

lemma session_ptrs_notify_all [simp]: "session_ptrs (notify_all ts d w) = session_ptrs w"
  by (induction ts arbitrary: w) simp_all

lemma session_ptrs_updates [simp]:
  "session_ptrs (w\<lparr>s_state := s\<rparr>) = session_ptrs w"
  "session_ptrs (w\<lparr>timers := ts\<rparr>) = session_ptrs w"
  "session_ptrs (mgos_clear_timer tid w) = session_ptrs w"
  "session_ptrs (mgos_sntp_retry scfg e w) = session_ptrs w"
  "session_ptrs (mgos_sntp_add_time_change_cb f a w) = session_ptrs w"
  by (simp_all add: session_ptrs_def mgos_sntp_add_time_change_cb_def)

lemma session_ptrs_reply [simp]:
  "session_ptrs (mgos_sntp_ev scfg e p (MG_SNTP_REPLY t) w) = session_ptrs w"
  by (simp add: mgos_sntp_ev.simps(2) Let_def)

lemma session_ptrs_ev:
  "session_ptrs (mgos_sntp_ev scfg e p ev w) = session_ptrs w"
  by (cases ev) simp_all

lemma nc_ev:
  "nc (s_state (mgos_sntp_ev scfg e p ev w)) =
     (if ev = MG_EV_CLOSE \<and> nc (s_state w) = Some p then None else nc (s_state w))"
  by (cases ev) (simp_all add: reply_s_state)

lemma session_ptrs_remove:
  "session_ptrs (w\<lparr>mgr := filter (\<lambda>c. conn_ptr c \<noteq> p) (mgr w)\<rparr>) =
     filter (\<lambda>q. q \<noteq> p) (session_ptrs w)"
  by (simp add: session_ptrs_def filter_map comp_def conj_commute)

text \<open>\<^verbatim>\<open>mgos_sntp_query\<close> in its two cases, and the invariant.\<close>

lemma query_active:
  "nc (s_state w) = Some p \<Longrightarrow> mgos_sntp_query e srv w = (False, set_close_flag p w)"
  by (simp add: mgos_sntp_query_def)

lemma query_idle:
  "nc (s_state w) = None \<Longrightarrow>
   mgos_sntp_query e srv w =
     (connect_ok e,
      if connect_ok e
      then w\<lparr>mgr := \<lparr>conn_ptr = fresh_id (map conn_ptr (mgr w)), handler = H_mgos_sntp_ev,
                      flags = 0, ev_timer_time = 0\<rparr> # mgr w,
             s_state := (s_state w)\<lparr>nc := Some (fresh_id (map conn_ptr (mgr w)))\<rparr>\<rparr>
      else w)"
  by (simp add: mgos_sntp_query_def mg_sntp_connect_def Let_def)

lemma one_session_query:
  "one_session w \<Longrightarrow> one_session (snd (mgos_sntp_query e srv w))"
proof (cases "nc (s_state w)")
  case None
  assume "one_session w"
  then show ?thesis using None
    by (simp add: query_idle one_session_def session_ptrs_def)
next
  case (Some p)
  assume "one_session w"
  then show ?thesis using Some by (simp add: query_active one_session_def)
qed

lemma one_session_retry [simp]:
  "one_session (mgos_sntp_retry scfg e w) = one_session w"
  by (simp add: one_session_def)

lemma one_session_timers [simp]:
  "one_session (w\<lparr>timers := ts\<rparr>) = one_session w"
  by (simp add: one_session_def)

lemma mgos_sntp_retry_timer_cb_eq:
  "mgos_sntp_retry_timer_cb scfg e w =
     mgos_sntp_retry scfg e
       (snd (mgos_sntp_query e (server scfg)
               (w\<lparr>s_state := (s_state w)\<lparr>retry_timer_id := MGOS_INVALID_TIMER_ID\<rparr>\<rparr>)))"
  by (simp add: mgos_sntp_retry_timer_cb_def Let_def case_prod_unfold)

lemma one_session_timer_cb:
  "one_session w \<Longrightarrow> one_session (mgos_sntp_retry_timer_cb scfg e w)"
proof -
  assume a: "one_session w"
  let ?w1 = "w\<lparr>s_state := (s_state w)\<lparr>retry_timer_id := MGOS_INVALID_TIMER_ID\<rparr>\<rparr>"
  have "one_session ?w1" using a by (simp add: one_session_def)
  then have "one_session (snd (mgos_sntp_query e (server scfg) ?w1))"
    by (rule one_session_query)
  then show ?thesis by (simp add: mgos_sntp_retry_timer_cb_eq)
qed

lemma one_session_step:
  assumes "one_session w" "step scfg x w = Some w'"
  shows "one_session w'"
proof (cases x)
  case (Pair e ev)
  show ?thesis
  proof (cases ev)
    case (Ev_net n)
    then show ?thesis using assms Pair by (auto simp: mgos_sntp_net_ev_def)
  next
    case (Ev_timer tid)
    then show ?thesis using assms Pair
      by (auto simp: one_session_timer_cb split: if_splits)
  next
    case (Ev_conn p cev)
    have live: "p \<in> set (session_ptrs w)" using assms Pair Ev_conn by (simp split: if_splits)
    then have ncp: "nc (s_state w) = Some p" and ptrs: "session_ptrs w = [p]"
      using assms(1) by (auto simp: one_session_def split: option.splits)
    let ?w1 = "mgos_sntp_ev scfg e p cev w"
    have w': "w' = (if cev = MG_EV_CLOSE
                    then ?w1\<lparr>mgr := filter (\<lambda>c. conn_ptr c \<noteq> p) (mgr ?w1)\<rparr> else ?w1)"
      using assms(2) Pair Ev_conn live by (simp add: Let_def)
    show ?thesis
    proof (cases "cev = MG_EV_CLOSE")
      case True
      then show ?thesis using w' ncp ptrs
        by (simp add: one_session_def session_ptrs_remove session_ptrs_ev nc_ev
                 del: mgos_sntp_ev.simps)
    next
      case False
      then show ?thesis using w' ncp ptrs
        by (simp add: one_session_def session_ptrs_ev nc_ev del: mgos_sntp_ev.simps)
    qed
  next
    case (Ev_add_cb n a)
    then show ?thesis using assms Pair
      by (auto simp: one_session_def mgos_sntp_add_time_change_cb_def)
  qed
qed

lemma one_session_run:
  "one_session w \<Longrightarrow> run scfg evs w = Some w' \<Longrightarrow> one_session w'"
proof (induction evs arbitrary: w)
  case Nil
  then show ?case by simp
next
  case (Cons x xs)
  then show ?case by (auto split: option.splits dest: one_session_step)
qed

lemma one_session_length: "one_session w \<Longrightarrow> length (session_ptrs w) \<le> 1"
  by (simp add: one_session_def split: option.splits)

section \<open>One session at a time\<close>

lemma close_flag_absorb: "(f OR MG_F_CLOSE_IMMEDIATELY) AND MG_F_CLOSE_IMMEDIATELY = MG_F_CLOSE_IMMEDIATELY"
  by (rule bit_eqI) (simp add: bit_and_iff bit_or_iff)

lemma close_flag_nonzero: "MG_F_CLOSE_IMMEDIATELY \<noteq> 0"
  by (simp add: MG_F_CLOSE_IMMEDIATELY_def)

lemma close_flag_set: "(f OR MG_F_CLOSE_IMMEDIATELY) AND MG_F_CLOSE_IMMEDIATELY \<noteq> 0"
  by (simp only: close_flag_absorb close_flag_nonzero not_False_eq_True)

lemma set_close_flag_flagged:
  assumes "c \<in> set (mgr (set_close_flag p w))" "conn_ptr c = p"
  shows "flags c AND MG_F_CLOSE_IMMEDIATELY \<noteq> 0"
proof -
  obtain c0 where c0: "c0 \<in> set (mgr w)"
      "c = (if conn_ptr c0 = p then c0\<lparr>flags := flags c0 OR MG_F_CLOSE_IMMEDIATELY\<rparr> else c0)"
    using assms(1) unfolding set_close_flag_def by auto
  have "conn_ptr c0 = p" using c0(2) assms(2) by (simp split: if_splits)
  then have "flags c = flags c0 OR MG_F_CLOSE_IMMEDIATELY" using c0(2) by simp
  then show ?thesis by (simp only: close_flag_set not_False_eq_True)
qed

lemma boot_one_session:
  "\<forall>c\<in>set m. handler c = H_other \<Longrightarrow> one_session (snd (mgos_sntp_init scfg (boot m)))"
proof -
  assume a: "\<forall>c\<in>set m. handler c = H_other"
  have "filter (\<lambda>c. handler c = H_mgos_sntp_ev) m = []" using a by (auto simp: filter_empty_conv)
  then show ?thesis
    by (simp add: one_session_def session_ptrs_def mgos_sntp_init_def boot_def Let_def
                  mgos_sntp_add_time_change_cb_def)
qed

text \<open>
  C6. \<^verbatim>\<open>mgos_sntp_query\<close> starts a session only when none is tracked. With
  \<^verbatim>\<open>s_state.nc\<close> set, it sets \<^verbatim>\<open>MG_F_CLOSE_IMMEDIATELY\<close> on the tracked connection,
  returns false and creates nothing. With \<^verbatim>\<open>s_state.nc\<close> null, it asks for a connection,
  tracks the new session if there is one and returns whether there is one. From start-up
  (no SNTP session among the manager's connections) and initialisation on, whatever
  events the loop delivers in whatever order, at most one SNTP session is live, and it is
  the one \<^verbatim>\<open>s_state.nc\<close> tracks.
\<close>

theorem single_session:
  "(nc (s_state w) = Some p \<longrightarrow>
      mgos_sntp_query e srv w = (False, set_close_flag p w) \<and>
      session_ptrs (snd (mgos_sntp_query e srv w)) = session_ptrs w \<and>
      nc (s_state (snd (mgos_sntp_query e srv w))) = Some p \<and>
      (\<forall>c \<in> set (mgr (snd (mgos_sntp_query e srv w))).
          conn_ptr c = p \<longrightarrow> flags c AND MG_F_CLOSE_IMMEDIATELY \<noteq> 0)) \<and>
   (nc (s_state w) = None \<longrightarrow>
      fst (mgos_sntp_query e srv w) = connect_ok e \<and>
      (connect_ok e \<longrightarrow>
         nc (s_state (snd (mgos_sntp_query e srv w))) = Some (fresh_id (map conn_ptr (mgr w))) \<and>
         session_ptrs (snd (mgos_sntp_query e srv w)) =
           fresh_id (map conn_ptr (mgr w)) # session_ptrs w \<and>
         fresh_id (map conn_ptr (mgr w)) \<notin> set (map conn_ptr (mgr w))) \<and>
      (\<not> connect_ok e \<longrightarrow> snd (mgos_sntp_query e srv w) = w)) \<and>
   ((\<forall>c \<in> set m. handler c = H_other) \<and>
    run scfg evs (snd (mgos_sntp_init scfg (boot m))) = Some w' \<longrightarrow>
      length (session_ptrs w') \<le> 1 \<and>
      session_ptrs w' = (case nc (s_state w') of None \<Rightarrow> [] | Some q \<Rightarrow> [q]))"
proof -
  have 1: "mgos_sntp_query e srv w = (False, set_close_flag p w) \<and>
      session_ptrs (snd (mgos_sntp_query e srv w)) = session_ptrs w \<and>
      nc (s_state (snd (mgos_sntp_query e srv w))) = Some p \<and>
      (\<forall>c \<in> set (mgr (snd (mgos_sntp_query e srv w))).
          conn_ptr c = p \<longrightarrow> flags c AND MG_F_CLOSE_IMMEDIATELY \<noteq> 0)"
    if "nc (s_state w) = Some p"
  proof -
    have q: "mgos_sntp_query e srv w = (False, set_close_flag p w)"
      using that by (rule query_active)
    have "\<forall>c \<in> set (mgr (set_close_flag p w)).
            conn_ptr c = p \<longrightarrow> flags c AND MG_F_CLOSE_IMMEDIATELY \<noteq> 0"
      using set_close_flag_flagged by blast
    then show ?thesis using q that by simp
  qed
  have 2: "fst (mgos_sntp_query e srv w) = connect_ok e \<and>
      (connect_ok e \<longrightarrow>
         nc (s_state (snd (mgos_sntp_query e srv w))) = Some (fresh_id (map conn_ptr (mgr w))) \<and>
         session_ptrs (snd (mgos_sntp_query e srv w)) =
           fresh_id (map conn_ptr (mgr w)) # session_ptrs w \<and>
         fresh_id (map conn_ptr (mgr w)) \<notin> set (map conn_ptr (mgr w))) \<and>
      (\<not> connect_ok e \<longrightarrow> snd (mgos_sntp_query e srv w) = w)"
    if "nc (s_state w) = None"
    using query_idle [OF that, of e srv] fresh_id_notin [of "map conn_ptr (mgr w)"]
    by (simp add: session_ptrs_def)
  have 3: "length (session_ptrs w') \<le> 1 \<and>
      session_ptrs w' = (case nc (s_state w') of None \<Rightarrow> [] | Some q \<Rightarrow> [q])"
    if "(\<forall>c \<in> set m. handler c = H_other) \<and>
        run scfg evs (snd (mgos_sntp_init scfg (boot m))) = Some w'"
  proof -
    have "one_session (snd (mgos_sntp_init scfg (boot m)))"
      using that by (simp add: boot_one_session)
    then have "one_session w'" using that by (blast intro: one_session_run)
    then show ?thesis using one_session_length by (simp add: one_session_def)
  qed
  show ?thesis using 1 2 3 by blast
qed

theorem single_session_witness:
  "nc (s_state world_attempt) = Some 1 \<and>
   mgos_sntp_query env0 (server cfg0) world_attempt =
     (False, world_attempt\<lparr>mgr := [\<lparr>conn_ptr = 1, handler = H_mgos_sntp_ev, flags = 2048,
                                        ev_timer_time = 0\<rparr>]\<rparr>) \<and>
   nc (s_state (boot [])) = None \<and> connect_ok env0 \<and>
   fst (mgos_sntp_query env0 (server cfg0) (boot [])) \<and>
   session_ptrs (snd (mgos_sntp_query env0 (server cfg0) (boot []))) = [1] \<and>
   (\<exists>w'. run cfg0 [(env0, Ev_net MGOS_NET_EV_IP_ACQUIRED), (env0, Ev_timer 1),
                      (env0, Ev_net MGOS_NET_EV_IP_ACQUIRED), (env0, Ev_timer 1)]
               (snd (mgos_sntp_init cfg0 (boot [conn_a, conn_b]))) = Some w' \<and>
         session_ptrs w' = [3] \<and> nc (s_state w') = Some 3)"
  using single_session [of world_attempt 1 env0 "server cfg0" "[]" cfg0 "[]" "boot []"]
        single_session [of "boot []" 1 env0 "server cfg0" "[conn_a, conn_b]" cfg0
           "[(env0, Ev_net MGOS_NET_EV_IP_ACQUIRED), (env0, Ev_timer 1),
             (env0, Ev_net MGOS_NET_EV_IP_ACQUIRED), (env0, Ev_timer 1)]"]
  by (simp add: run_defs conn_a_def conn_b_def)

section \<open>The feature disabled\<close>

lemma disabled_step:
  assumes "\<not> enable scfg" "timers w = []" "session_ptrs w = []" "step scfg x w = Some w'"
  shows "timers w' = [] \<and> session_ptrs w' = [] \<and> mgr w' = mgr w"
proof (cases x)
  case (Pair e ev)
  show ?thesis
  proof (cases ev)
    case (Ev_net n)
    then show ?thesis using assms Pair
      by (auto simp: mgos_sntp_net_ev_def mgos_sntp_retry_noop)
  next
    case (Ev_timer tid)
    then show ?thesis using assms Pair by simp
  next
    case (Ev_conn p cev)
    then show ?thesis using assms Pair by simp
  next
    case (Ev_add_cb n a)
    then show ?thesis using assms Pair
      by (auto simp: mgos_sntp_add_time_change_cb_def)
  qed
qed

lemma disabled_run:
  "\<not> enable scfg \<Longrightarrow> timers w = [] \<Longrightarrow> session_ptrs w = [] \<Longrightarrow> run scfg evs w = Some w' \<Longrightarrow>
   timers w' = [] \<and> session_ptrs w' = [] \<and> mgr w' = mgr w"
proof (induction evs arbitrary: w)
  case Nil
  then show ?case by simp
next
  case (Cons x xs)
  from Cons.prems(4) obtain w1 where s: "step scfg x w = Some w1" and r: "run scfg xs w1 = Some w'"
    by (auto split: option.splits)
  have 1: "timers w1 = [] \<and> session_ptrs w1 = [] \<and> mgr w1 = mgr w"
    using disabled_step [OF Cons.prems(1-3) s] .
  then have "timers w' = [] \<and> session_ptrs w' = [] \<and> mgr w' = mgr w1"
    using Cons.IH [OF Cons.prems(1) _ _ r] by simp
  then show ?case using 1 by simp
qed

text \<open>
  C9. With the feature disabled, \<^verbatim>\<open>mgos_sntp_retry\<close> returns the world it was given, and
  so does \<^verbatim>\<open>mgos_sntp_net_ev\<close> for every network event. Hence, from a world with no
  timer armed and no live session, no run of the event loop ever arms a timer or starts
  a session: no timer can expire, so \<^verbatim>\<open>mgos_sntp_query\<close> is never reached.
\<close>

theorem disabled_never_arms:
  assumes "\<not> enable scfg"
  shows "mgos_sntp_retry scfg e w = w \<and>
         mgos_sntp_net_ev scfg e ev w = w \<and>
         (timers w = [] \<and> session_ptrs w = [] \<and> run scfg evs w = Some w' \<longrightarrow>
            timers w' = [] \<and> session_ptrs w' = [] \<and> mgr w' = mgr w)"
proof -
  have 1: "mgos_sntp_retry scfg e w = w" using assms by (simp add: mgos_sntp_retry_noop)
  have 2: "mgos_sntp_net_ev scfg e ev w = w" using 1 by (simp add: mgos_sntp_net_ev_def)
  have 3: "timers w' = [] \<and> session_ptrs w' = [] \<and> mgr w' = mgr w"
    if "timers w = [] \<and> session_ptrs w = [] \<and> run scfg evs w = Some w'"
    using that disabled_run [OF assms, of w evs w'] by simp
  show ?thesis using 1 2 3 by blast
qed

theorem disabled_never_arms_witness:
  "\<not> enable (cfg0\<lparr>enable := False\<rparr>) \<and>
   mgos_sntp_retry (cfg0\<lparr>enable := False\<rparr>) env0 (boot [conn_a]) = boot [conn_a] \<and>
   mgos_sntp_net_ev (cfg0\<lparr>enable := False\<rparr>) env0 MGOS_NET_EV_IP_ACQUIRED (boot [conn_a]) =
     boot [conn_a] \<and>
   (\<exists>w'. run (cfg0\<lparr>enable := False\<rparr>)
             [(env0, Ev_net MGOS_NET_EV_IP_ACQUIRED), (env0, Ev_add_cb 1 2),
              (env0, Ev_net MGOS_NET_EV_IP_ACQUIRED)] (boot [conn_a]) = Some w' \<and>
         timers w' = [] \<and> session_ptrs w' = [])"
  using disabled_never_arms [of "cfg0\<lparr>enable := False\<rparr>" env0 "boot [conn_a]"
          MGOS_NET_EV_IP_ACQUIRED
          "[(env0, Ev_net MGOS_NET_EV_IP_ACQUIRED), (env0, Ev_add_cb 1 2),
            (env0, Ev_net MGOS_NET_EV_IP_ACQUIRED)]"]
  by (simp add: run_defs conn_a_def)

section \<open>The backoff along failures\<close>

lemma next_backoff_bounds:
  assumes cfg: "retry_min scfg \<le> retry_max scfg" "int_ok (retry_min scfg * 1000)"
               "int_ok (retry_max scfg * 2000)"
    and b: "0 \<le> b" "b \<le> retry_max scfg * 1000"
  shows "b \<le> next_backoff scfg b \<and> next_backoff scfg b \<le> retry_max scfg * 1000 \<and>
         retry_min scfg * 1000 \<le> next_backoff scfg b"
proof -
  have hi: "int_ok (retry_max scfg * 1000)"
    using cfg(3) b by (simp add: int_ok_def INT_MIN_def INT_MAX_def)
  have b2: "int_ok (b * 2)" using cfg(3) b by (simp add: int_ok_def INT_MIN_def INT_MAX_def)
  have "next_backoff scfg b = min (retry_max scfg * 1000) (max (retry_min scfg * 1000) (b * 2))"
    using b2 cfg(2) hi by (rule next_backoff_clamp)
  then show ?thesis using cfg(1) b by (simp add: min_def max_def)
qed

lemma query_backoff [simp]:
  "retry_timeout_ms (s_state (snd (mgos_sntp_query e srv w))) = retry_timeout_ms (s_state w)"
  "synced (s_state (snd (mgos_sntp_query e srv w))) = synced (s_state w)"
  "retry_timer_id (s_state (snd (mgos_sntp_query e srv w))) = retry_timer_id (s_state w)"
  by (cases "nc (s_state w)"; simp add: query_active query_idle)+

lemma retry_backoff_cases:
  "retry_timeout_ms (s_state (mgos_sntp_retry scfg e w)) =
     (if enable scfg \<and> retry_timer_id (s_state w) = MGOS_INVALID_TIMER_ID \<and> \<not> synced (s_state w)
      then next_backoff scfg (retry_timeout_ms (s_state w)) else retry_timeout_ms (s_state w))"
proof (cases "enable scfg \<and> retry_timer_id (s_state w) = MGOS_INVALID_TIMER_ID")
  case True
  then show ?thesis by (simp add: mgos_sntp_retry_backoff)
next
  case False
  then have "mgos_sntp_retry scfg e w = w" by (auto simp: mgos_sntp_retry_noop)
  then show ?thesis using False by auto
qed

lemma timer_cb_backoff:
  "retry_timeout_ms (s_state (mgos_sntp_retry_timer_cb scfg e w)) =
     (if enable scfg \<and> \<not> synced (s_state w)
      then next_backoff scfg (retry_timeout_ms (s_state w)) else retry_timeout_ms (s_state w))"
  "synced (s_state (mgos_sntp_retry_timer_cb scfg e w)) = synced (s_state w)"
  by (simp_all add: mgos_sntp_retry_timer_cb_eq retry_backoff_cases)

lemma ev_backoff:
  "retry_timeout_ms (s_state (mgos_sntp_ev scfg e p ev w)) =
     (case ev of
        MG_SNTP_REPLY t \<Rightarrow> 0
      | MG_EV_CLOSE \<Rightarrow>
          (if nc (s_state w) = Some p \<and> enable scfg \<and>
              retry_timer_id (s_state w) = MGOS_INVALID_TIMER_ID \<and> \<not> synced (s_state w)
           then next_backoff scfg (retry_timeout_ms (s_state w)) else retry_timeout_ms (s_state w))
      | _ \<Rightarrow> retry_timeout_ms (s_state w))"
  by (cases ev) (simp_all add: reply_s_state retry_backoff_cases)

lemma ev_synced:
  "synced (s_state (mgos_sntp_ev scfg e p ev w)) =
     (case ev of MG_SNTP_REPLY t \<Rightarrow> True | _ \<Rightarrow> synced (s_state w))"
  by (cases ev) (simp_all add: reply_s_state)

lemma step_backoff_cases:
  assumes "step scfg x w = Some w'" "\<not> is_reply x"
  shows "synced (s_state w') = synced (s_state w) \<and>
         (retry_timeout_ms (s_state w') = retry_timeout_ms (s_state w) \<or>
          \<not> synced (s_state w) \<and>
          retry_timeout_ms (s_state w') = next_backoff scfg (retry_timeout_ms (s_state w)))"
proof (cases x)
  case (Pair e ev)
  show ?thesis
  proof (cases ev)
    case (Ev_net n)
    then have "w' = w \<or> w' = mgos_sntp_retry scfg e w"
      using assms Pair by (auto simp: mgos_sntp_net_ev_def)
    then show ?thesis by (auto simp: retry_backoff_cases)
  next
    case (Ev_timer tid)
    then show ?thesis using assms Pair
      by (auto simp: timer_cb_backoff split: if_splits)
  next
    case (Ev_conn p cev)
    have nr: "\<And>t. cev \<noteq> MG_SNTP_REPLY t" using assms(2) Pair Ev_conn by auto
    let ?w1 = "mgos_sntp_ev scfg e p cev w"
    have s: "s_state w' = s_state ?w1"
      using assms(1) Pair Ev_conn by (auto simp: Let_def split: if_splits)
    have "synced (s_state ?w1) = synced (s_state w)"
      using nr by (cases cev) (auto simp: ev_synced)
    moreover have "retry_timeout_ms (s_state ?w1) = retry_timeout_ms (s_state w) \<or>
          \<not> synced (s_state w) \<and>
          retry_timeout_ms (s_state ?w1) = next_backoff scfg (retry_timeout_ms (s_state w))"
      using nr by (cases cev) (auto simp: retry_backoff_cases)
    ultimately show ?thesis using s by simp
  next
    case (Ev_add_cb n a)
    then show ?thesis using assms Pair
      by (auto simp: mgos_sntp_add_time_change_cb_def)
  qed
qed

lemma backoff_run:
  assumes cfg: "retry_min scfg \<le> retry_max scfg" "int_ok (retry_min scfg * 1000)"
               "int_ok (retry_max scfg * 2000)"
  shows "0 \<le> retry_timeout_ms (s_state w) \<Longrightarrow>
         retry_timeout_ms (s_state w) \<le> retry_max scfg * 1000 \<Longrightarrow>
         \<forall>x \<in> set evs. \<not> is_reply x \<Longrightarrow> run scfg evs w = Some w' \<Longrightarrow>
         retry_timeout_ms (s_state w) \<le> retry_timeout_ms (s_state w') \<and>
         retry_timeout_ms (s_state w') \<le> retry_max scfg * 1000 \<and>
         synced (s_state w') = synced (s_state w)"
proof (induction evs arbitrary: w)
  case Nil
  then show ?case by simp
next
  case (Cons x xs)
  from Cons.prems(4) obtain w1 where s: "step scfg x w = Some w1" and r: "run scfg xs w1 = Some w'"
    by (auto split: option.splits)
  have nr: "\<not> is_reply x" "\<forall>y \<in> set xs. \<not> is_reply y" using Cons.prems(3) by simp_all
  have c: "synced (s_state w1) = synced (s_state w) \<and>
         (retry_timeout_ms (s_state w1) = retry_timeout_ms (s_state w) \<or>
          \<not> synced (s_state w) \<and>
          retry_timeout_ms (s_state w1) = next_backoff scfg (retry_timeout_ms (s_state w)))"
    using s nr(1) by (rule step_backoff_cases)
  have nb: "retry_timeout_ms (s_state w) \<le> next_backoff scfg (retry_timeout_ms (s_state w)) \<and>
            next_backoff scfg (retry_timeout_ms (s_state w)) \<le> retry_max scfg * 1000"
    using next_backoff_bounds [OF cfg Cons.prems(1,2)] by simp
  have 1: "retry_timeout_ms (s_state w) \<le> retry_timeout_ms (s_state w1)"
          "retry_timeout_ms (s_state w1) \<le> retry_max scfg * 1000"
    using c nb Cons.prems(2) by auto
  have 0: "0 \<le> retry_timeout_ms (s_state w1)" using 1(1) Cons.prems(1) by simp
  have "retry_timeout_ms (s_state w1) \<le> retry_timeout_ms (s_state w') \<and>
         retry_timeout_ms (s_state w') \<le> retry_max scfg * 1000 \<and>
         synced (s_state w') = synced (s_state w1)"
    using Cons.IH [OF 0 1(2) nr(2) r] .
  then show ?case using 1 c by simp
qed

lemma init_s_state:
  "retry_timeout_ms (s_state (snd (mgos_sntp_init scfg (boot m)))) = 0"
  "\<not> synced (s_state (snd (mgos_sntp_init scfg (boot m))))"
  by (simp_all add: mgos_sntp_init_def boot_def mgos_sntp_add_time_change_cb_def Let_def)


lemma retry_unsynced_cases:
  assumes "\<not> synced (s_state w)"
  shows "mgos_sntp_retry scfg e w = w \<or>
         retry_timeout_ms (s_state (mgos_sntp_retry scfg e w)) =
           next_backoff scfg (retry_timeout_ms (s_state w))"
proof (cases "enable scfg \<and> retry_timer_id (s_state w) = MGOS_INVALID_TIMER_ID")
  case True
  then show ?thesis using assms by (simp add: mgos_sntp_retry_backoff)
next
  case False
  then show ?thesis by (auto simp: mgos_sntp_retry_noop)
qed

lemma timer_cb_disabled_id:
  "\<not> enable scfg \<Longrightarrow>
   retry_timer_id (s_state (mgos_sntp_retry_timer_cb scfg e w)) = MGOS_INVALID_TIMER_ID"
  by (simp add: mgos_sntp_retry_timer_cb_eq mgos_sntp_retry_noop)

lemma step_unsynced_cases:
  assumes "step scfg x w = Some w'" "\<not> is_reply x" "\<not> synced (s_state w)"
  shows "(retry_timeout_ms (s_state w') = retry_timeout_ms (s_state w) \<and>
          (retry_timer_id (s_state w') = retry_timer_id (s_state w) \<or>
           retry_timer_id (s_state w') = MGOS_INVALID_TIMER_ID)) \<or>
         retry_timeout_ms (s_state w') = next_backoff scfg (retry_timeout_ms (s_state w))"
proof (cases x)
  case (Pair e ev)
  show ?thesis
  proof (cases ev)
    case (Ev_net n)
    then have "w' = w \<or> w' = mgos_sntp_retry scfg e w"
      using assms Pair by (auto simp: mgos_sntp_net_ev_def)
    then show ?thesis using retry_unsynced_cases [OF assms(3), of scfg e] by auto
  next
    case (Ev_timer tid)
    then have w': "w' = mgos_sntp_retry_timer_cb scfg e
                          (w\<lparr>timers := filter (\<lambda>t. fst t \<noteq> tid) (timers w)\<rparr>)"
      using assms Pair by (auto split: if_splits)
    show ?thesis
    proof (cases "enable scfg")
      case True
      then show ?thesis using w' assms(3) by (simp add: timer_cb_backoff)
    next
      case False
      then show ?thesis using w' by (simp add: timer_cb_backoff timer_cb_disabled_id)
    qed
  next
    case (Ev_conn p cev)
    have nr: "\<And>t. cev \<noteq> MG_SNTP_REPLY t" using assms(2) Pair Ev_conn by auto
    let ?w1 = "mgos_sntp_ev scfg e p cev w"
    let ?w0 = "w\<lparr>s_state := (s_state w)\<lparr>nc := None\<rparr>\<rparr>"
    have s: "s_state w' = s_state ?w1"
      using assms(1) Pair Ev_conn by (auto simp: Let_def split: if_splits)
    have "s_state ?w1 = s_state w \<or> ?w1 = mgos_sntp_retry scfg e ?w0"
      using nr by (cases cev) auto
    moreover have "\<not> synced (s_state ?w0)" using assms(3) by simp
    then have "mgos_sntp_retry scfg e ?w0 = ?w0 \<or>
         retry_timeout_ms (s_state (mgos_sntp_retry scfg e ?w0)) =
           next_backoff scfg (retry_timeout_ms (s_state ?w0))"
      by (rule retry_unsynced_cases)
    ultimately show ?thesis using s by auto
  next
    case (Ev_add_cb n a)
    then show ?thesis using assms Pair
      by (auto simp: mgos_sntp_add_time_change_cb_def)
  qed
qed


lemma reply_step:
  assumes "is_reply x" "step scfg x w = Some w'"
  shows "s_state w' = (s_state w)\<lparr>retry_timeout_ms := 0, synced := True,
                                    retry_timer_id := MGOS_INVALID_TIMER_ID\<rparr>"
proof -
  obtain e p t where x: "x = (e, Ev_conn p (MG_SNTP_REPLY t))"
    using assms(1) by (auto elim: is_reply.elims)
  have "w' = mgos_sntp_ev scfg e p (MG_SNTP_REPLY t) w"
    using assms(2) x by (simp add: Let_def split: if_splits)
  then show ?thesis by (simp add: reply_s_state)
qed

text \<open>
  The invariant of the stored backoff over every run, replies included: it lies between
  0 and \<^verbatim>\<open>retry_max * 1000\<close>; it is 0 once \<^verbatim>\<open>synced\<close> is true; and while \<^verbatim>\<open>synced\<close> is
  false and a retry timer is armed it is at least \<^verbatim>\<open>retry_min * 1000\<close>.
\<close>

lemma backoff_inv_step:
  assumes cfg: "retry_min scfg \<le> retry_max scfg" "0 \<le> retry_max scfg"
               "int_ok (retry_min scfg * 1000)" "int_ok (retry_max scfg * 2000)"
    and b: "0 \<le> retry_timeout_ms (s_state w)"
           "retry_timeout_ms (s_state w) \<le> retry_max scfg * 1000"
    and sy: "synced (s_state w) \<longrightarrow> retry_timeout_ms (s_state w) = 0"
    and ar: "\<not> synced (s_state w) \<and> retry_timer_id (s_state w) \<noteq> MGOS_INVALID_TIMER_ID \<longrightarrow>
             retry_min scfg * 1000 \<le> retry_timeout_ms (s_state w)"
    and s: "step scfg x w = Some w'"
  shows "0 \<le> retry_timeout_ms (s_state w') \<and>
         retry_timeout_ms (s_state w') \<le> retry_max scfg * 1000 \<and>
         (synced (s_state w') \<longrightarrow> retry_timeout_ms (s_state w') = 0) \<and>
         (\<not> synced (s_state w') \<and> retry_timer_id (s_state w') \<noteq> MGOS_INVALID_TIMER_ID \<longrightarrow>
            retry_min scfg * 1000 \<le> retry_timeout_ms (s_state w'))"
proof (cases "is_reply x")
  case True
  then show ?thesis using reply_step [OF True s] cfg(2) by simp
next
  case False
  have c: "synced (s_state w') = synced (s_state w) \<and>
         (retry_timeout_ms (s_state w') = retry_timeout_ms (s_state w) \<or>
          \<not> synced (s_state w) \<and>
          retry_timeout_ms (s_state w') = next_backoff scfg (retry_timeout_ms (s_state w)))"
    using s False by (rule step_backoff_cases)
  have nb: "retry_timeout_ms (s_state w) \<le> next_backoff scfg (retry_timeout_ms (s_state w)) \<and>
            next_backoff scfg (retry_timeout_ms (s_state w)) \<le> retry_max scfg * 1000 \<and>
            retry_min scfg * 1000 \<le> next_backoff scfg (retry_timeout_ms (s_state w))"
    using next_backoff_bounds [OF cfg(1,3,4) b] .
  show ?thesis
  proof (cases "synced (s_state w)")
    case True
    then show ?thesis using c sy cfg(2) by auto
  next
    case ns: False
    have u: "(retry_timeout_ms (s_state w') = retry_timeout_ms (s_state w) \<and>
          (retry_timer_id (s_state w') = retry_timer_id (s_state w) \<or>
           retry_timer_id (s_state w') = MGOS_INVALID_TIMER_ID)) \<or>
         retry_timeout_ms (s_state w') = next_backoff scfg (retry_timeout_ms (s_state w))"
      using s False ns by (rule step_unsynced_cases)
    have 1: "0 \<le> retry_timeout_ms (s_state w')" using u nb b by auto
    have 2: "retry_timeout_ms (s_state w') \<le> retry_max scfg * 1000" using u nb b by auto
    have 3: "\<not> synced (s_state w')" using c ns by simp
    have 4: "retry_timer_id (s_state w') \<noteq> MGOS_INVALID_TIMER_ID \<longrightarrow>
            retry_min scfg * 1000 \<le> retry_timeout_ms (s_state w')"
      using u nb ar ns by auto
    show ?thesis using 1 2 3 4 by simp
  qed
qed

lemma backoff_inv_run:
  assumes cfg: "retry_min scfg \<le> retry_max scfg" "0 \<le> retry_max scfg"
               "int_ok (retry_min scfg * 1000)" "int_ok (retry_max scfg * 2000)"
  shows "0 \<le> retry_timeout_ms (s_state w) \<Longrightarrow>
         retry_timeout_ms (s_state w) \<le> retry_max scfg * 1000 \<Longrightarrow>
         synced (s_state w) \<longrightarrow> retry_timeout_ms (s_state w) = 0 \<Longrightarrow>
         \<not> synced (s_state w) \<and> retry_timer_id (s_state w) \<noteq> MGOS_INVALID_TIMER_ID \<longrightarrow>
           retry_min scfg * 1000 \<le> retry_timeout_ms (s_state w) \<Longrightarrow>
         run scfg evs w = Some w' \<Longrightarrow>
         0 \<le> retry_timeout_ms (s_state w') \<and>
         retry_timeout_ms (s_state w') \<le> retry_max scfg * 1000 \<and>
         (synced (s_state w') \<longrightarrow> retry_timeout_ms (s_state w') = 0) \<and>
         (\<not> synced (s_state w') \<and> retry_timer_id (s_state w') \<noteq> MGOS_INVALID_TIMER_ID \<longrightarrow>
            retry_min scfg * 1000 \<le> retry_timeout_ms (s_state w'))"
proof (induction evs arbitrary: w)
  case Nil
  then show ?case by simp
next
  case (Cons x xs)
  from Cons.prems(5) obtain w1 where s: "step scfg x w = Some w1" and r: "run scfg xs w1 = Some w'"
    by (auto split: option.splits)
  have i: "0 \<le> retry_timeout_ms (s_state w1) \<and>
         retry_timeout_ms (s_state w1) \<le> retry_max scfg * 1000 \<and>
         (synced (s_state w1) \<longrightarrow> retry_timeout_ms (s_state w1) = 0) \<and>
         (\<not> synced (s_state w1) \<and> retry_timer_id (s_state w1) \<noteq> MGOS_INVALID_TIMER_ID \<longrightarrow>
            retry_min scfg * 1000 \<le> retry_timeout_ms (s_state w1))"
    using backoff_inv_step [OF cfg Cons.prems(1-4) s] .
  show ?case using Cons.IH [OF _ _ _ _ r] i by blast
qed

text \<open>
  C4, as the code has it. For retry bounds with \<^verbatim>\<open>retry_min <= retry_max\<close> and
  \<^verbatim>\<open>retry_max\<close> not negative (and the products in milliseconds, doubled for the upper
  bound, representable), take any run of the event loop from start-up, replies of the
  server included, and continue it by any stretch that contains no reply. Over the
  stretch \<^verbatim>\<open>retry_timeout_ms\<close> never decreases and \<^verbatim>\<open>synced\<close> does not change; at its end, as
  at every reachable point, the stored value lies between 0 and \<^verbatim>\<open>retry_max * 1000\<close>.
  While \<^verbatim>\<open>synced\<close> is false, every execution of the backoff branch (by the timer
  callback; by \<^verbatim>\<open>mgos_sntp_retry\<close> itself when no timer is armed) stores at least
  \<^verbatim>\<open>retry_min * 1000\<close>, and whenever a retry timer is armed the stored value is at least
  \<^verbatim>\<open>retry_min * 1000\<close>. Once \<^verbatim>\<open>synced\<close> is true, after an earlier success, failed attempts
  are rescheduled by the steady-state branch and the stored value stays 0. A reply
  resets it to 0.
\<close>

theorem backoff_monotone_bounded:
  assumes cfg: "retry_min scfg \<le> retry_max scfg" "0 \<le> retry_max scfg"
               "int_ok (retry_min scfg * 1000)" "int_ok (retry_max scfg * 2000)"
    and r1: "run scfg evs1 (snd (mgos_sntp_init scfg (boot m))) = Some w1"
    and r2: "run scfg evs2 w1 = Some w2"
    and nr: "\<forall>x \<in> set evs2. \<not> is_reply x"
  shows "retry_timeout_ms (s_state w1) \<le> retry_timeout_ms (s_state w2) \<and>
         0 \<le> retry_timeout_ms (s_state w2) \<and>
         retry_timeout_ms (s_state w2) \<le> retry_max scfg * 1000 \<and>
         synced (s_state w2) = synced (s_state w1) \<and>
         (synced (s_state w2) \<longrightarrow>
            retry_timeout_ms (s_state w2) = 0 \<and>
            retry_timeout_ms (s_state (mgos_sntp_retry_timer_cb scfg e w2)) = 0 \<and>
            retry_timeout_ms (s_state (mgos_sntp_retry scfg e w2)) = 0) \<and>
         (\<not> synced (s_state w2) \<and> retry_timer_id (s_state w2) \<noteq> MGOS_INVALID_TIMER_ID \<longrightarrow>
            retry_min scfg * 1000 \<le> retry_timeout_ms (s_state w2)) \<and>
         (\<not> synced (s_state w2) \<and> enable scfg \<longrightarrow>
            retry_min scfg * 1000 \<le>
              retry_timeout_ms (s_state (mgos_sntp_retry_timer_cb scfg e w2))) \<and>
         (\<not> synced (s_state w2) \<and> enable scfg \<and>
          retry_timer_id (s_state w2) = MGOS_INVALID_TIMER_ID \<longrightarrow>
            retry_min scfg * 1000 \<le> retry_timeout_ms (s_state (mgos_sntp_retry scfg e w2))) \<and>
         retry_timeout_ms (s_state (mgos_sntp_ev scfg e p (MG_SNTP_REPLY t) w2)) = 0"
proof -
  let ?w0 = "snd (mgos_sntp_init scfg (boot m))"
  note c3 = cfg(1,3,4)
  have i0: "retry_timeout_ms (s_state ?w0) = 0" "\<not> synced (s_state ?w0)"
    by (rule init_s_state)+
  have it: "retry_timer_id (s_state ?w0) = MGOS_INVALID_TIMER_ID"
    by (simp add: mgos_sntp_init_def boot_def mgos_sntp_add_time_change_cb_def Let_def)
  have h0: "0 \<le> retry_timeout_ms (s_state ?w0)"
           "retry_timeout_ms (s_state ?w0) \<le> retry_max scfg * 1000"
           "synced (s_state ?w0) \<longrightarrow> retry_timeout_ms (s_state ?w0) = 0"
           "\<not> synced (s_state ?w0) \<and> retry_timer_id (s_state ?w0) \<noteq> MGOS_INVALID_TIMER_ID \<longrightarrow>
              retry_min scfg * 1000 \<le> retry_timeout_ms (s_state ?w0)"
    using i0 it cfg(2) by simp_all
  have i1: "0 \<le> retry_timeout_ms (s_state w1) \<and>
         retry_timeout_ms (s_state w1) \<le> retry_max scfg * 1000 \<and>
         (synced (s_state w1) \<longrightarrow> retry_timeout_ms (s_state w1) = 0) \<and>
         (\<not> synced (s_state w1) \<and> retry_timer_id (s_state w1) \<noteq> MGOS_INVALID_TIMER_ID \<longrightarrow>
            retry_min scfg * 1000 \<le> retry_timeout_ms (s_state w1))"
    using backoff_inv_run [OF cfg h0 r1] .
  have r12: "run scfg (evs1 @ evs2) ?w0 = Some w2" using r1 r2 by (simp add: run_append)
  have i2: "0 \<le> retry_timeout_ms (s_state w2) \<and>
         retry_timeout_ms (s_state w2) \<le> retry_max scfg * 1000 \<and>
         (synced (s_state w2) \<longrightarrow> retry_timeout_ms (s_state w2) = 0) \<and>
         (\<not> synced (s_state w2) \<and> retry_timer_id (s_state w2) \<noteq> MGOS_INVALID_TIMER_ID \<longrightarrow>
            retry_min scfg * 1000 \<le> retry_timeout_ms (s_state w2))"
    using backoff_inv_run [OF cfg h0 r12] .
  have a2: "retry_timeout_ms (s_state w1) \<le> retry_timeout_ms (s_state w2) \<and>
            retry_timeout_ms (s_state w2) \<le> retry_max scfg * 1000 \<and>
            synced (s_state w2) = synced (s_state w1)"
    using backoff_run [OF c3 _ _ nr r2] i1 by blast
  have b2: "0 \<le> retry_timeout_ms (s_state w2)"
           "retry_timeout_ms (s_state w2) \<le> retry_max scfg * 1000"
    using i2 by simp_all
  have nb: "retry_min scfg * 1000 \<le> next_backoff scfg (retry_timeout_ms (s_state w2))"
    using next_backoff_bounds [OF c3 b2] by simp
  have s0: "retry_timeout_ms (s_state w2) = 0 \<and>
            retry_timeout_ms (s_state (mgos_sntp_retry_timer_cb scfg e w2)) = 0 \<and>
            retry_timeout_ms (s_state (mgos_sntp_retry scfg e w2)) = 0"
    if "synced (s_state w2)"
    using that i2 by (simp add: timer_cb_backoff retry_backoff_cases)
  have t: "retry_min scfg * 1000 \<le>
              retry_timeout_ms (s_state (mgos_sntp_retry_timer_cb scfg e w2))"
    if "\<not> synced (s_state w2) \<and> enable scfg"
    using that nb by (simp add: timer_cb_backoff)
  have d: "retry_min scfg * 1000 \<le> retry_timeout_ms (s_state (mgos_sntp_retry scfg e w2))"
    if "\<not> synced (s_state w2) \<and> enable scfg \<and>
        retry_timer_id (s_state w2) = MGOS_INVALID_TIMER_ID"
    using that nb by (simp add: retry_backoff_cases)
  have z: "retry_timeout_ms (s_state (mgos_sntp_ev scfg e p (MG_SNTP_REPLY t) w2)) = 0"
    by (simp add: reply_s_state)
  show ?thesis using a2 i2 s0 t d z by blast
qed

theorem backoff_monotone_bounded_witness:
  "retry_min cfg0 \<le> retry_max cfg0 \<and> 0 \<le> retry_max cfg0 \<and>
   int_ok (retry_min cfg0 * 1000) \<and> int_ok (retry_max cfg0 * 2000) \<and>
   run cfg0 [(env0, Ev_net MGOS_NET_EV_IP_ACQUIRED)] (snd (mgos_sntp_init cfg0 (boot []))) \<noteq> None \<and>
   retry_timeout_ms (s_state (the (run cfg0 [(env0, Ev_net MGOS_NET_EV_IP_ACQUIRED)]
                                     (snd (mgos_sntp_init cfg0 (boot [])))))) = 10000 \<and>
   run cfg0 ((env0, Ev_net MGOS_NET_EV_IP_ACQUIRED) # failed_attempt env0)
       (snd (mgos_sntp_init cfg0 (boot []))) \<noteq> None \<and>
   retry_timeout_ms (s_state (the (run cfg0
       ((env0, Ev_net MGOS_NET_EV_IP_ACQUIRED) # failed_attempt env0)
       (snd (mgos_sntp_init cfg0 (boot [])))))) = 20000 \<and>
   run cfg0 (synced_once @ failed_attempt env0 @ failed_attempt env0)
       (snd (mgos_sntp_init cfg0 (boot []))) \<noteq> None \<and>
   synced (s_state (the (run cfg0 (synced_once @ failed_attempt env0 @ failed_attempt env0)
       (snd (mgos_sntp_init cfg0 (boot [])))))) \<and>
   retry_timeout_ms (s_state (the (run cfg0
       (synced_once @ failed_attempt env0 @ failed_attempt env0)
       (snd (mgos_sntp_init cfg0 (boot [])))))) = 0"
  using backoff_monotone_bounded
     [of cfg0 "[(env0, Ev_net MGOS_NET_EV_IP_ACQUIRED)]" "[]"
         "the (run cfg0 [(env0, Ev_net MGOS_NET_EV_IP_ACQUIRED)]
                 (snd (mgos_sntp_init cfg0 (boot []))))"
         "failed_attempt env0"
         "the (run cfg0 ((env0, Ev_net MGOS_NET_EV_IP_ACQUIRED) # failed_attempt env0)
                 (snd (mgos_sntp_init cfg0 (boot []))))" env0 1 1500]
        backoff_monotone_bounded
     [of cfg0 synced_once "[]"
         "the (run cfg0 synced_once (snd (mgos_sntp_init cfg0 (boot []))))"
         "failed_attempt env0 @ failed_attempt env0"
         "the (run cfg0 (synced_once @ failed_attempt env0 @ failed_attempt env0)
                 (snd (mgos_sntp_init cfg0 (boot []))))" env0 1 1500]
  by (simp add: run_defs failed_attempt_def synced_once_def mgos_sntp_ev.simps(2))

text \<open>
  The claim as the specification words it sets no condition on the retry bounds. With
  \<^verbatim>\<open>retry_min = 300\<close> and \<^verbatim>\<open>retry_max = 10\<close>, the first run of the backoff branch (the link
  comes up at start-up) stores 10000, below \<^verbatim>\<open>retry_min * 1000 = 300000\<close>, and so does
  the run after the first failed attempt. With
  \<^verbatim>\<open>retry_min = -5\<close> and \<^verbatim>\<open>retry_max = -1\<close>, it stores -1000, below the 0 stored before and
  with 0 above \<^verbatim>\<open>retry_max * 1000\<close>, and the first failed attempt lowers it to -2000.
\<close>

theorem backoff_monotone_bounded_counterexample:
  "run (cfg0\<lparr>retry_min := 300, retry_max := 10\<rparr>)
       ((env0, Ev_net MGOS_NET_EV_IP_ACQUIRED) # failed_attempt env0)
       (snd (mgos_sntp_init (cfg0\<lparr>retry_min := 300, retry_max := 10\<rparr>) (boot []))) \<noteq> None \<and>
   retry_timeout_ms (s_state (the (run (cfg0\<lparr>retry_min := 300, retry_max := 10\<rparr>)
       [(env0, Ev_net MGOS_NET_EV_IP_ACQUIRED)]
       (snd (mgos_sntp_init (cfg0\<lparr>retry_min := 300, retry_max := 10\<rparr>) (boot [])))))) = 10000 \<and>
   retry_timeout_ms (s_state (the (run (cfg0\<lparr>retry_min := 300, retry_max := 10\<rparr>)
       ((env0, Ev_net MGOS_NET_EV_IP_ACQUIRED) # failed_attempt env0)
       (snd (mgos_sntp_init (cfg0\<lparr>retry_min := 300, retry_max := 10\<rparr>) (boot [])))))) = 10000 \<and>
   retry_min (cfg0\<lparr>retry_min := 300, retry_max := 10\<rparr>) * 1000 = 300000 \<and>
   retry_timeout_ms (s_state (snd (mgos_sntp_init (cfg0\<lparr>retry_min := - 5, retry_max := - 1\<rparr>)
       (boot [])))) = 0 \<and>
   retry_max (cfg0\<lparr>retry_min := - 5, retry_max := - 1\<rparr>) * 1000 = - 1000 \<and>
   run (cfg0\<lparr>retry_min := - 5, retry_max := - 1\<rparr>)
       ((env0, Ev_net MGOS_NET_EV_IP_ACQUIRED) # failed_attempt env0)
       (snd (mgos_sntp_init (cfg0\<lparr>retry_min := - 5, retry_max := - 1\<rparr>) (boot []))) \<noteq> None \<and>
   retry_timeout_ms (s_state (the (run (cfg0\<lparr>retry_min := - 5, retry_max := - 1\<rparr>)
       [(env0, Ev_net MGOS_NET_EV_IP_ACQUIRED)]
       (snd (mgos_sntp_init (cfg0\<lparr>retry_min := - 5, retry_max := - 1\<rparr>) (boot [])))))) = - 1000 \<and>
   retry_timeout_ms (s_state (the (run (cfg0\<lparr>retry_min := - 5, retry_max := - 1\<rparr>)
       ((env0, Ev_net MGOS_NET_EV_IP_ACQUIRED) # failed_attempt env0)
       (snd (mgos_sntp_init (cfg0\<lparr>retry_min := - 5, retry_max := - 1\<rparr>) (boot [])))))) = - 2000"
  by (simp add: run_defs failed_attempt_def)

section \<open>The backoff formula\<close>

lemma link_up_run:
  "enable scfg \<Longrightarrow>
   run scfg [(e, Ev_net MGOS_NET_EV_IP_ACQUIRED)] (boot []) =
     Some (waiting (next_backoff scfg 0) (jitter (rand_unit e) (next_backoff scfg 0)))"
  by (simp add: waiting_def boot_def mgos_sntp_net_ev_def mgos_sntp_retry_def mgos_set_timer_def
        fresh_id_def next_backoff_def jitter_def Let_def MGOS_INVALID_TIMER_ID_def)

lemma failed_attempt_run:
  "enable scfg \<Longrightarrow> connect_ok e \<Longrightarrow>
   run scfg (failed_attempt e) (waiting b d) =
     Some (waiting (next_backoff scfg b) (jitter (rand_unit e) (next_backoff scfg b)))"
  by (simp add: failed_attempt_def waiting_def mgos_sntp_retry_timer_cb_def mgos_sntp_query_def
        mg_sntp_connect_def mgos_sntp_retry_def mgos_set_timer_def session_ptrs_def
        set_close_flag_def fresh_id_def next_backoff_def jitter_def Let_def
        MGOS_INVALID_TIMER_ID_def)

lemma next_backoff_10_300:
  assumes "retry_min scfg = 10" "retry_max scfg = 300"
  shows "next_backoff scfg 0 = 10000"
    and "next_backoff scfg (min 300000 (10000 * 2 ^ n)) = min 300000 (10000 * 2 ^ Suc n)"
proof -
  have ok: "int_ok (retry_min scfg * 1000)" "int_ok (retry_max scfg * 1000)"
    using assms by (simp_all add: int_ok_def INT_MIN_def INT_MAX_def)
  have "int_ok (0 * 2)" by (simp add: int_ok_def INT_MIN_def INT_MAX_def)
  then show "next_backoff scfg 0 = 10000"
    using next_backoff_clamp [OF _ ok, of 0] assms by simp
  define b :: int where "b = min 300000 (10000 * 2 ^ n)"
  have p: "(1::int) \<le> 2 ^ n" by simp
  have b: "10000 \<le> b" "b \<le> 300000" using p by (simp_all add: b_def)
  have "int_ok (b * 2)" using b by (simp add: int_ok_def INT_MIN_def INT_MAX_def)
  then have "next_backoff scfg b = min 300000 (max 10000 (b * 2))"
    using next_backoff_clamp [OF _ ok, of b] assms by simp
  also have "\<dots> = min 300000 (b * 2)" using b by simp
  also have "\<dots> = min 300000 (10000 * 2 ^ Suc n)" by (simp add: b_def min_def)
  finally show "next_backoff scfg (min 300000 (10000 * 2 ^ n)) = min 300000 (10000 * 2 ^ Suc n)"
    by (simp only: b_def)
qed

lemma failures_snoc: "failures e0 (es @ [e]) = failures e0 es @ failed_attempt e"
  by (simp add: failures_def)

lemma failures_run:
  assumes "enable scfg" "retry_min scfg = 10" "retry_max scfg = 300"
  shows "\<forall>x \<in> set es. connect_ok x \<Longrightarrow>
         run scfg (failures e0 es) (boot []) =
           Some (waiting (min 300000 (10000 * 2 ^ length es))
                   (jitter (rand_unit (last (e0 # es))) (min 300000 (10000 * 2 ^ length es))))"
proof (induction es rule: rev_induct)
  case Nil
  show ?case
    using link_up_run [OF assms(1), of e0] next_backoff_10_300(1) [OF assms(2,3)]
    by (simp add: failures_def)
next
  case (snoc e es)
  have r: "run scfg (failures e0 es) (boot []) =
           Some (waiting (min 300000 (10000 * 2 ^ length es))
                   (jitter (rand_unit (last (e0 # es))) (min 300000 (10000 * 2 ^ length es))))"
    using snoc by simp
  have c: "connect_ok e" using snoc.prems by simp
  show ?case
    by (simp only: failures_snoc run_append r option.case failed_attempt_run [OF assms(1) c]
          next_backoff_10_300(2) [OF assms(2,3)] length_append_singleton last_snoc
          last.simps snoc_eq_iff_butlast append_is_Nil_conv not_Cons_self2 if_False
          append_Cons [symmetric] list.simps)
qed


lemma dvd_10_seq: "(10::int) dvd min 300000 (10000 * 2 ^ n)"
  by (simp add: min_def)

text \<open>
  C3, as the code has it. In the backoff branch (feature enabled, not synced, no timer
  armed; the three products representable) \<^verbatim>\<open>mgos_sntp_retry\<close> raises the doubled backoff
  to \<^verbatim>\<open>retry_min * 1000\<close> first and cuts it to \<^verbatim>\<open>retry_max * 1000\<close> second, stores the
  result and arms the timer with the truncated draw between nine and eleven tenths of
  it. The stored value is \<open>min (retry_max * 1000) (max (retry_min * 1000) (old * 2))\<close>,
  which is the formula of the specification whenever \<^verbatim>\<open>retry_min <= retry_max\<close>.
  With \<^verbatim>\<open>retry_min = 10\<close> and \<^verbatim>\<open>retry_max = 300\<close>, after the link has come up and \<open>k\<close>
  attempts in a row have failed, the stored value is \<open>min 300000 (10000 * 2 ^ k)\<close>, that
  is 10000, 20000, 40000, 80000, 160000 and then 300000 for good, and the delay of the
  armed timer lies between 0.9 and 1.1 times the stored value.
\<close>

theorem backoff_formula:
  "(enable scfg \<and> \<not> synced (s_state w) \<and>
    retry_timer_id (s_state w) = MGOS_INVALID_TIMER_ID \<and>
    int_ok (retry_timeout_ms (s_state w) * 2) \<and>
    int_ok (retry_min scfg * 1000) \<and> int_ok (retry_max scfg * 1000) \<longrightarrow>
      retry_timeout_ms (s_state (mgos_sntp_retry scfg e w)) =
        min (retry_max scfg * 1000)
            (max (retry_min scfg * 1000) (retry_timeout_ms (s_state w) * 2)) \<and>
      (retry_min scfg \<le> retry_max scfg \<longrightarrow>
         retry_timeout_ms (s_state (mgos_sntp_retry scfg e w)) =
           max (retry_min scfg * 1000)
               (min (retry_max scfg * 1000) (retry_timeout_ms (s_state w) * 2))) \<and>
      timers (mgos_sntp_retry scfg e w) =
        timers w @ [(retry_timer_id (s_state (mgos_sntp_retry scfg e w)),
                     jitter (rand_unit e)
                       (retry_timeout_ms (s_state (mgos_sntp_retry scfg e w))))]) \<and>
   (enable scfg \<and> retry_min scfg = 10 \<and> retry_max scfg = 300 \<and>
    (\<forall>x \<in> set (e0 # es). connect_ok x \<and> 0 \<le> rand_unit x \<and> rand_unit x \<le> 1) \<longrightarrow>
      (\<exists>w' d. run scfg (failures e0 es) (boot []) = Some w' \<and>
              retry_timeout_ms (s_state w') = min 300000 (10000 * 2 ^ length es) \<and>
              timers w' = [(retry_timer_id (s_state w'), d)] \<and>
              9 * retry_timeout_ms (s_state w') \<le> 10 * d \<and>
              10 * d \<le> 11 * retry_timeout_ms (s_state w')))"
proof -
  let ?w' = "mgos_sntp_retry scfg e w"
  let ?old = "retry_timeout_ms (s_state w)"
  have 1: "retry_timeout_ms (s_state ?w') =
             min (retry_max scfg * 1000) (max (retry_min scfg * 1000) (?old * 2)) \<and>
           (retry_min scfg \<le> retry_max scfg \<longrightarrow>
              retry_timeout_ms (s_state ?w') =
                max (retry_min scfg * 1000) (min (retry_max scfg * 1000) (?old * 2))) \<and>
           timers ?w' = timers w @ [(retry_timer_id (s_state ?w'),
                          jitter (rand_unit e) (retry_timeout_ms (s_state ?w')))]"
    if h: "enable scfg \<and> \<not> synced (s_state w) \<and>
           retry_timer_id (s_state w) = MGOS_INVALID_TIMER_ID \<and>
           int_ok (?old * 2) \<and> int_ok (retry_min scfg * 1000) \<and> int_ok (retry_max scfg * 1000)"
  proof -
    have a: "enable scfg" "retry_timer_id (s_state w) = MGOS_INVALID_TIMER_ID" using h by simp_all
    have st: "retry_timeout_ms (s_state ?w') = next_backoff scfg ?old"
      using mgos_sntp_retry_backoff [OF a, of e] h by simp
    have nb: "next_backoff scfg ?old =
                min (retry_max scfg * 1000) (max (retry_min scfg * 1000) (?old * 2))"
      using h by (simp add: next_backoff_clamp)
    have tm: "timers ?w' = timers w @ [(retry_timer_id (s_state ?w'),
                          jitter (rand_unit e) (retry_timeout_ms (s_state ?w')))]"
      using mgos_sntp_retry_timers [OF a, of e] mgos_sntp_retry_timer_id [OF a, of e] h st
      by simp
    show ?thesis using st nb tm by (simp add: min_def max_def)
  qed
  have 2: "\<exists>w' d. run scfg (failures e0 es) (boot []) = Some w' \<and>
              retry_timeout_ms (s_state w') = min 300000 (10000 * 2 ^ length es) \<and>
              timers w' = [(retry_timer_id (s_state w'), d)] \<and>
              9 * retry_timeout_ms (s_state w') \<le> 10 * d \<and>
              10 * d \<le> 11 * retry_timeout_ms (s_state w')"
    if h: "enable scfg \<and> retry_min scfg = 10 \<and> retry_max scfg = 300 \<and>
           (\<forall>x \<in> set (e0 # es). connect_ok x \<and> 0 \<le> rand_unit x \<and> rand_unit x \<le> 1)"
  proof -
    define b :: int where "b = min 300000 (10000 * 2 ^ length es)"
    define u where "u = rand_unit (last (e0 # es))"
    have c: "\<forall>x \<in> set es. connect_ok x" using h by simp
    have r: "run scfg (failures e0 es) (boot []) = Some (waiting b (jitter u b))"
      unfolding b_def u_def using failures_run [OF _ _ _ c, of scfg e0] h by blast
    have "last (e0 # es) \<in> set (e0 # es)" by (rule last_in_set) simp
    then have u: "0 \<le> u" "u \<le> 1" using h unfolding u_def by blast+
    have b0: "0 \<le> b" by (simp add: b_def)
    have bd: "10 dvd b" unfolding b_def by (rule dvd_10_seq)
    have "b \<le> 300000" by (simp add: b_def)
    then have br: "11 * b \<le> 10 * INT_MAX" by (simp add: INT_MAX_def)
    have j: "9 * b \<le> 10 * jitter u b \<and> 10 * jitter u b \<le> 11 * b"
      using u b0 bd br by (rule jitter_nonneg)
    have f: "retry_timeout_ms (s_state (waiting b (jitter u b))) = b"
            "timers (waiting b (jitter u b)) =
               [(retry_timer_id (s_state (waiting b (jitter u b))), jitter u b)]"
      by (simp_all add: waiting_def)
    show ?thesis using r j f unfolding b_def [symmetric] by metis
  qed
  show ?thesis using 1 2 by blast
qed

theorem backoff_formula_witness:
  "enable cfg0 \<and> \<not> synced (s_state (boot [])) \<and>
   int_ok (retry_min cfg0 * 1000) \<and> int_ok (retry_max cfg0 * 1000) \<and>
   retry_timeout_ms (s_state (mgos_sntp_retry cfg0 env0 (boot []))) = 10000 \<and>
   timers (mgos_sntp_retry cfg0 env0 (boot [])) = [(1, 10000)] \<and>
   connect_ok env0 \<and> 0 \<le> rand_unit env0 \<and> rand_unit env0 \<le> 1 \<and>
   run cfg0 (failures env0 [env0, env0]) (boot []) = Some (waiting 40000 40000)"
  using backoff_formula [of cfg0 "boot []" env0 env0 "[env0, env0]"]
  by (simp add: run_defs failures_def failed_attempt_def waiting_def)

text \<open>
  The claim as the specification words it gives the formula
  \<open>max (retry_min * 1000) (min (retry_max * 1000) (old * 2))\<close> for every configuration
  of the bounds. With \<^verbatim>\<open>retry_min = 300\<close> and \<^verbatim>\<open>retry_max = 10\<close> the function stores
  10000 at start-up, where the formula gives 300000.
\<close>

theorem backoff_formula_counterexample:
  "retry_timeout_ms (s_state (boot [])) = 0 \<and>
   retry_timeout_ms (s_state (mgos_sntp_retry (cfg0\<lparr>retry_min := 300, retry_max := 10\<rparr>) env0
                                (boot []))) = 10000 \<and>
   max (retry_min (cfg0\<lparr>retry_min := 300, retry_max := 10\<rparr>) * 1000)
       (min (retry_max (cfg0\<lparr>retry_min := 300, retry_max := 10\<rparr>) * 1000)
            (retry_timeout_ms (s_state (boot [])) * 2)) = 300000"
  by (simp add: run_defs)

end
